theory Spec2Isabelle
  imports
    Main
    "HOL-Library.Word"
    "HOL-Library.Char_ord"
    "HOL-Library.List_Lexorder"
    "HOL-Library.Sublist"
begin

unbundle bit_operations_syntax

section \<open>Python values and string primitives\<close>

text \<open>
  Python \<open>str\<close> values are modelled as \<open>string\<close> (lists of 8-bit characters), bytes
  objects as lists of 8-bit words, Python integers as \<open>int\<close>.  Text files are
  modelled after decoding, with \<open>\n\<close> as the only line terminator.
\<close>

type_synonym byte = "8 word"

definition NL :: char where
  "NL = CHR 0x0A"

definition truthy_str :: "string \<Rightarrow> bool" where
  "truthy_str s = (s \<noteq> [])"

text \<open>Truthiness of an optional string (\<open>None\<close> and \<open>""\<close> are false).\<close>

fun truthy_opt :: "string option \<Rightarrow> bool" where
  "truthy_opt None = False"
| "truthy_opt (Some s) = truthy_str s"

text \<open>Truthiness of an optional list (\<open>None\<close> and \<open>[]\<close> are false).\<close>

fun truthy_list :: "'a list option \<Rightarrow> bool" where
  "truthy_list None = False"
| "truthy_list (Some xs) = (xs \<noteq> [])"

subsection \<open>Configuration and settings read by the database driver\<close>

text \<open>
  \<open>Common.configs\<close> holds \<open>db_ver\<close> (initially \<open>None\<close>) and \<open>mysql_bin\<close>;
  \<open>Common.settings["network"]\<close> holds the connection parameters.
\<close>

record configs =
  db_ver :: "string option"
  mysql_bin :: string

record network =
  SQL_HOST :: string
  SQL_PORT :: string
  SQL_LOGIN :: string
  SQL_PASSWORD :: string
  SQL_DATABASE :: string

definition protected_tables :: "string list" where
  "protected_tables =
    [''accounts'', ''accounts_banned'', ''auction_house_items'', ''auction_house'',
     ''char_blacklist'', ''char_chocobos'', ''char_effects'', ''char_equip'',
     ''char_equip_saved'', ''char_exp'', ''char_history'', ''char_inventory'',
     ''char_jobs'', ''char_job_points'', ''char_look'', ''char_merit'', ''char_pet'',
     ''char_points'', ''char_profile'', ''char_skills'', ''char_spells'',
     ''char_stats'', ''char_storage'', ''char_style'', ''char_unlocks'', ''char_vars'',
     ''chars'', ''conquest_system'', ''delivery_box'', ''ip_exceptions'', ''linkshells'',
     ''server_variables'', ''unity_system'']"

section \<open>Backup file naming (\<open>Database.backup\<close>)\<close>

text \<open>
  The tag of the f-string in \<open>backup\<close>:
  \<^verbatim>\<open>'lite' if tables else Common.configs['db_ver'] if Common.configs['db_ver'] else 'full'\<close>
\<close>

definition backup_tag :: "configs \<Rightarrow> string list option \<Rightarrow> string" where
  "backup_tag cf tables =
     (if truthy_list tables then ''lite''
      else if truthy_opt (db_ver cf) then the (db_ver cf)
      else ''full'')"

text \<open>
  The file name joined to \<open>out_dir\<close>; \<open>ts\<close> is the value of
  \<open>time.strftime('%Y%m%d-%H%M%S')\<close> at the call.
\<close>

definition backup_filename :: "network \<Rightarrow> configs \<Rightarrow> string \<Rightarrow> string list option \<Rightarrow> string" where
  "backup_filename nw cf ts tables =
     SQL_DATABASE nw @ ''-'' @ ts @ ''-'' @ backup_tag cf tables @ ''.sql''"

text \<open>The \<open>tables\<close> argument \<open>main\<close> passes to \<open>backup\<close>:
  \<^verbatim>\<open>tables=Database.protected_tables if args.lite else None\<close>\<close>

definition main_backup_tables :: "bool \<Rightarrow> string list option" where
  "main_backup_tables lite = (if lite then Some protected_tables else None)"

section \<open>External collaborators\<close>

datatype exn =
  IndexError | ValueError | TypeError | FileNotFoundError | GitError | DatabaseError

text \<open>
  A finished vendor process: its return code and the lines of its captured standard
  error (\<open>result.stderr.splitlines()\<close>).
\<close>

record completed_process =
  returncode :: int
  stderr_lines :: "string list"

text \<open>
  The objects \<open>check_missing\<close> handles: table names are strings, and every row
  the cursor's \<open>fetchall()\<close> returns is a tuple.
\<close>

datatype pyval = PyStr string | PyTuple "pyval list"

text \<open>
  The value of one column of a fetched row: \<open>None\<close>, a \<open>bytes\<close> object, a \<open>str\<close>
  or an integer.  Floating-point and decimal values are outside this model.
\<close>

datatype cell = SqlNull | SqlBytes "byte list" | SqlStr string | SqlInt int

text \<open>
  One entry of \<open>cursor.description\<close>: its type code (index 1) and its scale
  (index 5).  \<open>FIELD_TYPE.FLOAT\<close> is 4 in the connector's constants.
\<close>

record column =
  type_code :: nat
  scale :: int

definition FIELD_TYPE_FLOAT :: nat where
  "FIELD_TYPE_FLOAT = 4"

text \<open>
  What \<open>cursor.execute("SELECT * FROM <table>;")\<close> followed by \<open>fetchall()\<close>
  leaves: the description of the columns and the rows in storage order.
\<close>

record result_set =
  description :: "column list"
  rows :: "cell list list"

text \<open>
  The cursor: \<open>select_all t\<close> is the result of the query on table \<open>t\<close> or the
  exception it raises; \<open>format_fixed d v\<close> is the text of \<open>f"{v:.{d}f}"\<close>.
\<close>

record cursor =
  select_all :: "string \<Rightarrow> exn + result_set"
  format_fixed :: "int \<Rightarrow> int \<Rightarrow> string"

text \<open>
  Everything the tool reads from outside the process: the checkout, the persisted
  configuration, the source-control diff, the file system and the database catalogue
  (the rows \<open>(TABLE_SCHEMA, TABLE_NAME)\<close> of \<open>information_schema.tables\<close>).
  \<^item> \<open>git_diff a b\<close> is \<open>repo.commit(a).diff(b, paths=<root>/sql)\<close>: the \<open>b_path\<close> of
    each entry (\<open>None\<close> for a deleted file), or the exception it raises;
  \<^item> \<open>walk_files d\<close> is the \<open>filenames\<close> of the first triple \<open>os.walk(d)\<close> yields,
    \<open>None\<close> when it yields nothing;
  \<^item> \<open>read_lines f\<close> is \<open>open(f).readlines()\<close>, \<open>None\<close> when opening or reading
    raises;
  \<^item> \<open>listdir d\<close> is \<open>os.listdir(d)\<close>, \<open>None\<close> when it raises;
  \<^item> \<open>glob_sql d\<close> is \<open>[str(f) for f in sorted(pathlib.Path(d).glob("**/*.sql"))]\<close>;
  \<^item> \<open>mysql_available\<close> is the result of \<open>check_mysql_bin()\<close>;
  \<^item> \<open>run_mysqladmin_create\<close>, \<open>run_mysqldump\<close> and \<open>run_mysql_source f\<close> are
    the finished processes of \<open>create\<close>, of \<open>backup\<close> (or the exception raised when
    its output file cannot be opened) and of \<open>import_file(f)\<close>;
  \<^item> \<open>migrations_error\<close> is the exception \<open>populate_migrations()\<close> raises, if any.
  Statements run on the live cursor outside \<open>export_table\<close> are taken to succeed.
\<close>

record world =
  root_path :: string
  version :: string
  cfg :: configs
  net :: network
  catalog :: "(string \<times> string) list"
  git_diff :: "string \<Rightarrow> string \<Rightarrow> exn + string option list"
  path_exists :: "string \<Rightarrow> bool"
  walk_files :: "string \<Rightarrow> string list option"
  read_lines :: "string \<Rightarrow> string list option"
  is_dir :: "string \<Rightarrow> bool"
  is_file :: "string \<Rightarrow> bool"
  listdir :: "string \<Rightarrow> string list option"
  glob_sql :: "string \<Rightarrow> string list"
  normpath :: "string \<Rightarrow> string"
  mysql_available :: bool
  run_mysqladmin_create :: completed_process
  run_mysqldump :: "exn + completed_process"
  run_mysql_source :: "string \<Rightarrow> completed_process"
  migrations_error :: "exn option"

section \<open>String primitives\<close>

text \<open>\<open>s.startswith(p)\<close> and \<open>s.endswith(p)\<close>.\<close>

definition startswith :: "string \<Rightarrow> string \<Rightarrow> bool" where
  "startswith s p = prefix p s"

definition endswith :: "string \<Rightarrow> string \<Rightarrow> bool" where
  "endswith s p = suffix p s"

text \<open>\<open>s.find(sub)\<close>: the index of the first occurrence, \<open>None\<close> for \<open>-1\<close>.\<close>

fun find_sub :: "string \<Rightarrow> string \<Rightarrow> nat option" where
  "find_sub sub [] = (if sub = [] then Some 0 else None)"
| "find_sub sub (c # cs) =
     (if prefix sub (c # cs) then Some 0 else map_option Suc (find_sub sub cs))"

text \<open>\<open>sub in s\<close>.\<close>

definition contains :: "string \<Rightarrow> string \<Rightarrow> bool" where
  "contains sub s = (find_sub sub s \<noteq> None)"

text \<open>
  Characters for which \<open>str.isspace()\<close> holds, among the code points below 256:
  tab to carriage return, the separators \<open>0x1C\<close> to \<open>0x1F\<close>, space, \<open>0x85\<close>
  and \<open>0xA0\<close>.
\<close>

definition isspace :: "char \<Rightarrow> bool" where
  "isspace c = (let n = (of_char c :: nat) in
     (9 \<le> n \<and> n \<le> 13) \<or> (28 \<le> n \<and> n \<le> 32) \<or> n = 133 \<or> n = 160)"

definition lstrip :: "string \<Rightarrow> string" where
  "lstrip s = dropWhile isspace s"

definition rstrip :: "string \<Rightarrow> string" where
  "rstrip s = rev (dropWhile isspace (rev s))"

definition strip :: "string \<Rightarrow> string" where
  "strip s = rstrip (lstrip s)"

text \<open>\<open>s.split(sep)\<close> for a non-empty separator, and \<open>s.rsplit(sep)\<close>, which scans
  from the right.\<close>

function split_on :: "string \<Rightarrow> string \<Rightarrow> string list" where
  "split_on sep [] = [[]]"
| "split_on sep (c # cs) =
     (if sep \<noteq> [] \<and> prefix sep (c # cs)
      then [] # split_on sep (drop (length sep) (c # cs))
      else (case split_on sep cs of
              [] \<Rightarrow> [[c]]
            | p # ps \<Rightarrow> (c # p) # ps))"
  by pat_completeness auto
termination
  by (relation "measure (\<lambda>(sep, s). length s)") auto

definition rsplit_on :: "string \<Rightarrow> string \<Rightarrow> string list" where
  "rsplit_on sep s = rev (map rev (split_on (rev sep) (rev s)))"

text \<open>\<open>posixpath.join(a, b)\<close>.\<close>

definition path_join :: "string \<Rightarrow> string \<Rightarrow> string" where
  "path_join a b =
     (if startswith b ''/'' then b
      else if a = [] \<or> endswith a ''/'' then a @ b
      else a @ ''/'' @ b)"

text \<open>\<open>os.path.join(Common.root_path, "sql", name)\<close>.\<close>

definition sql_path :: "world \<Rightarrow> string \<Rightarrow> string" where
  "sql_path w name = path_join (path_join (root_path w) ''sql'') name"

definition triggers_path :: "world \<Rightarrow> string" where
  "triggers_path w = sql_path w ''triggers.sql''"

section \<open>Selecting the files to import\<close>

subsection \<open>\<open>Database.fetch_errors\<close>\<close>

definition fetch_errors :: "completed_process \<Rightarrow> string list" where
  "fetch_errors result =
     filter (\<lambda>line. \<not> contains
        ''Using a password on the command line interface can be insecure'' line)
       (stderr_lines result)"

subsection \<open>\<open>Database.fetch_files\<close>\<close>

text \<open>
  The loop over the diff entries.  \<open>os.path.join\<close> raises on a \<open>b_path\<close> of \<open>None\<close>;
  the handler around the loop then keeps the files appended so far.
\<close>

fun diff_files :: "world \<Rightarrow> string option list \<Rightarrow> string list" where
  "diff_files w [] = []"
| "diff_files w (None # ds) = []"
| "diff_files w (Some b_path # ds) =
     (if path_exists w (path_join (root_path w) b_path)
      then path_join (root_path w) b_path # diff_files w ds
      else diff_files w ds)"

text \<open>\<open>filename[:-4]\<close>.\<close>

definition drop_ext :: "string \<Rightarrow> string" where
  "drop_ext filename = take (length filename - 4) filename"

text \<open>The branch taken when no applied revision or no source revision is known.\<close>

definition walk_sql_files :: "world \<Rightarrow> string list" where
  "walk_sql_files w =
     (case walk_files w (path_join (root_path w) ''sql'') of
        None \<Rightarrow> []
      | Some filenames \<Rightarrow>
          map (sql_path w)
            (filter (\<lambda>filename. endswith filename ''.sql''
                        \<and> drop_ext filename \<notin> set protected_tables)
               (sort filenames)))"

text \<open>The list \<open>import_files\<close> before it is sorted.\<close>

definition base_files :: "world \<Rightarrow> string list" where
  "base_files w =
     (if truthy_opt (db_ver (cfg w)) \<and> truthy_str (version w) then
        (case git_diff w (the (db_ver (cfg w))) (version w) of
           Inl e \<Rightarrow> []
         | Inr sql_diffs \<Rightarrow> diff_files w sql_diffs)
      else walk_sql_files w)"

text \<open>
  \<open>import_files.append(import_files.pop(import_files.index(x)))\<close> inside
  \<open>try ... except Exception: pass\<close>: \<open>index\<close> raises when \<open>x\<close> is absent and the list
  stays as it is.
\<close>

definition move_last :: "string \<Rightarrow> string list \<Rightarrow> string list" where
  "move_last x xs = (if x \<in> set xs then remove1 x xs @ [x] else xs)"

text \<open>The files one line of \<open>modules/init.txt\<close> contributes.\<close>

definition module_line_files :: "world \<Rightarrow> string \<Rightarrow> string list" where
  "module_line_files w line =
     (if \<not> startswith line ''#'' \<and> truthy_str (strip line)
          \<and> line \<notin> set [[NL], [CHR 0x0D, NL]]
      then
        (let line' = path_join (path_join (root_path w) ''modules'') (strip line) in
         if is_dir w line' then glob_sql w line'
         else if endswith line' ''.sql'' then [line'] else [])
      else [])"

definition module_files :: "world \<Rightarrow> string list \<Rightarrow> string list" where
  "module_files w lines = concat (map (module_line_files w) lines)"

definition fetch_files :: "world \<Rightarrow> exn + string list" where
  "fetch_files w =
     (let import_files = move_last (triggers_path w) (sort (base_files w)) in
      case read_lines w (path_join (path_join (root_path w) ''modules'') ''init.txt'') of
        None \<Rightarrow> Inl FileNotFoundError
      | Some lines \<Rightarrow> Inr (import_files @ module_files w lines))"

subsection \<open>\<open>Database.check_missing\<close>\<close>

text \<open>
  The rows of
  \<^verbatim>\<open>SELECT TABLE_NAME FROM `information_schema`.`tables`
    WHERE `TABLE_SCHEMA` = '<db>' AND `TABLE_NAME` IN (<names>)\<close>
  on the catalogue: one 1-tuple per table of schema \<open>db\<close> whose name is listed.
\<close>

definition select_table_names :: "(string \<times> string) list \<Rightarrow> string \<Rightarrow> string list \<Rightarrow> pyval list" where
  "select_table_names cat db names =
     map (\<lambda>(s, t). PyTuple [PyStr t])
       (filter (\<lambda>(s, t). s = db \<and> t \<in> set names) cat)"

text \<open>
  \<open>check_missing\<close> copies the fetched rows into \<open>missing_tables\<close> and returns them.
\<close>

definition check_missing :: "world \<Rightarrow> string list \<Rightarrow> pyval list" where
  "check_missing w table_list =
     select_table_names (catalog w) (SQL_DATABASE (net w)) table_list"

subsection \<open>\<open>Database.update\<close> and the import list of \<open>Database.create\<close>\<close>

text \<open>
  The comprehension of \<open>update\<close>; \<open>value not in check_missing(...)\<close> compares the
  string \<open>value\<close> with the returned rows.
\<close>

definition update_protected_files :: "world \<Rightarrow> string list" where
  "update_protected_files w =
     map (\<lambda>value. sql_path w (value @ ''.sql''))
       (filter (\<lambda>value. PyStr value \<notin> set (check_missing w protected_tables))
          protected_tables)"

text \<open>The local \<open>import_files\<close> at the end of \<open>update\<close>.\<close>

definition update_import_files :: "world \<Rightarrow> exn + string list" where
  "update_import_files w =
     (case fetch_files w of
        Inl e \<Rightarrow> Inl e
      | Inr fs \<Rightarrow> Inr (update_protected_files w @ fs))"

text \<open>
  \<open>create\<close> resets \<open>db_ver\<close> to \<open>None\<close> before it computes its list: every protected
  table's file, then \<open>fetch_files()\<close>.
\<close>

definition reset_db_ver :: "world \<Rightarrow> world" where
  "reset_db_ver w = w\<lparr>cfg := (cfg w)\<lparr>db_ver := None\<rparr>\<rparr>"

definition create_import_files :: "world \<Rightarrow> exn + string list" where
  "create_import_files w =
     (case fetch_files (reset_db_ver w) of
        Inl e \<Rightarrow> Inl e
      | Inr fs \<Rightarrow> Inr (map (\<lambda>value. sql_path w (value @ ''.sql'')) protected_tables @ fs))"

section \<open>Loading settings (\<open>Common.populate_settings\<close>)\<close>

text \<open>\<open>Common.settings\<close>: a dictionary per settings file, keyed by the file's stem.\<close>

type_synonym settings = "string \<rightharpoonup> (string \<rightharpoonup> string)"

text \<open>\<open>Common.settings.get(filename_key, {})\<close>.\<close>

definition get_or_empty :: "settings \<Rightarrow> string \<Rightarrow> (string \<rightharpoonup> string)" where
  "get_or_empty st filename_key = (case st filename_key of None \<Rightarrow> Map.empty | Some d \<Rightarrow> d)"

text \<open>The two parts of \<open>line.split("=", 1)\<close> for a line that contains \<open>=\<close>.\<close>

definition before_eq :: "string \<Rightarrow> string" where
  "before_eq line = takeWhile (\<lambda>c. c \<noteq> CHR ''='') line"

definition after_eq :: "string \<Rightarrow> string" where
  "after_eq line = tl (dropWhile (\<lambda>c. c \<noteq> CHR ''='') line)"

text \<open>
  The value stored for a line: comment stripped, then leading quote, trailing comma and
  trailing quote popped off.
\<close>

definition pop_first_if :: "string \<Rightarrow> string \<Rightarrow> string" where
  "pop_first_if p val = (if startswith val p then drop 1 val else val)"

definition pop_last_if :: "string \<Rightarrow> string \<Rightarrow> string" where
  "pop_last_if p val = (if endswith val p then butlast val else val)"

definition setting_value :: "string \<Rightarrow> string" where
  "setting_value val =
     pop_last_if [CHR 0x22]
       (pop_last_if '',''
          (pop_first_if [CHR 0x22] (strip (hd (rsplit_on ''--'' val)))))"

text \<open>
  The loop over the lines of one file.  The state is \<open>current_settings\<close> and
  \<open>Common.settings\<close>; a commented-out key continues with the next line before anything
  is stored.
\<close>

fun settings_lines ::
  "string \<Rightarrow> string list \<Rightarrow> (string \<rightharpoonup> string) \<times> settings \<Rightarrow> (string \<rightharpoonup> string) \<times> settings"
where
  "settings_lines filename_key [] (current_settings, st) = (current_settings, st)"
| "settings_lines filename_key (line # ls) (current_settings, st) =
     (if line = [] then (current_settings, st)
      else if contains ''='' line then
        (let line' = filter (\<lambda>c. c \<noteq> NL) line;
             key = strip (before_eq line');
             val = strip (after_eq line')
         in if startswith key ''--'' then settings_lines filename_key ls (current_settings, st)
            else
              (let current_settings' = current_settings(key \<mapsto> setting_value val)
               in settings_lines filename_key ls
                    (current_settings', st(filename_key \<mapsto> current_settings'))))
      else settings_lines filename_key ls
             (current_settings, st(filename_key \<mapsto> current_settings)))"

text \<open>\<open>filename[:-4].split(os.sep)[-1]\<close>.\<close>

definition filename_key_of :: "string \<Rightarrow> string" where
  "filename_key_of filename = last (split_on ''/'' (drop_ext filename))"

text \<open>
  One directory entry: skipped unless it is an existing regular file; a file that
  cannot be opened or read only prints a message.
\<close>

definition settings_file :: "world \<Rightarrow> string \<Rightarrow> settings \<Rightarrow> settings" where
  "settings_file w filename st =
     (if path_exists w filename \<and> is_file w filename then
        (case read_lines w filename of
           None \<Rightarrow> st
         | Some lines \<Rightarrow>
             snd (settings_lines (filename_key_of filename) lines
                    (get_or_empty st (filename_key_of filename), st)))
      else st)"

definition settings_dir :: "world \<Rightarrow> string \<Rightarrow> settings \<Rightarrow> exn + settings" where
  "settings_dir w path_to_settings st =
     (case listdir w path_to_settings of
        None \<Rightarrow> Inl FileNotFoundError
      | Some names \<Rightarrow>
          Inr (fold (\<lambda>filename. settings_file w (path_join path_to_settings filename))
                 names st))"

definition defaults_dir :: "world \<Rightarrow> string" where
  "defaults_dir w = path_join (path_join (root_path w) ''settings'') ''default''"

definition overrides_dir :: "world \<Rightarrow> string" where
  "overrides_dir w = path_join (root_path w) ''settings''"

definition populate_settings :: "world \<Rightarrow> settings \<Rightarrow> exn + settings" where
  "populate_settings w st =
     (case settings_dir w (defaults_dir w) st of
        Inl e \<Rightarrow> Inl e
      | Inr st' \<Rightarrow> settings_dir w (overrides_dir w) st')"

text \<open>Reading \<open>Common.settings[filename_key][key]\<close>, \<open>None\<close> for a missing key.\<close>

definition setting :: "settings \<Rightarrow> string \<Rightarrow> string \<Rightarrow> string option" where
  "setting st filename_key key =
     (case st filename_key of None \<Rightarrow> None | Some d \<Rightarrow> d key)"

subsection \<open>The loader as a list of assignments\<close>

text \<open>
  For the proofs, the effect of a settings file is described by the list of operations
  its lines perform on \<open>Common.settings\<close>: \<open>(filename_key, Some (key, val))\<close> stores a
  value, \<open>(filename_key, None)\<close> only registers the file's dictionary (a line without
  \<open>=\<close>).
\<close>

type_synonym setting_op = "string \<times> (string \<times> string) option"

fun apply_op :: "setting_op \<Rightarrow> settings \<Rightarrow> settings" where
  "apply_op (fk, None) st = st(fk \<mapsto> get_or_empty st fk)"
| "apply_op (fk, Some (k, v)) st = st(fk \<mapsto> (get_or_empty st fk)(k \<mapsto> v))"

fun line_ops :: "string list \<Rightarrow> (string \<times> string) option list" where
  "line_ops [] = []"
| "line_ops (line # ls) =
     (if line = [] then []
      else if contains ''='' line then
        (let line' = filter (\<lambda>c. c \<noteq> NL) line;
             key = strip (before_eq line');
             val = strip (after_eq line')
         in if startswith key ''--'' then line_ops ls
            else Some (key, setting_value val) # line_ops ls)
      else None # line_ops ls)"

definition file_ops :: "world \<Rightarrow> string \<Rightarrow> setting_op list" where
  "file_ops w filename =
     (if path_exists w filename \<and> is_file w filename then
        (case read_lines w filename of
           None \<Rightarrow> []
         | Some lines \<Rightarrow> map (Pair (filename_key_of filename)) (line_ops lines))
      else [])"

definition dir_ops :: "world \<Rightarrow> string \<Rightarrow> string list \<Rightarrow> setting_op list" where
  "dir_ops w d names = concat (map (\<lambda>filename. file_ops w (path_join d filename)) names)"

text \<open>The key/value pairs stored under one file key, in order.\<close>

definition sets_of :: "string \<Rightarrow> setting_op list \<Rightarrow> (string \<times> string) list" where
  "sets_of fk ops = List.map_filter (\<lambda>(f, u). if f = fk then u else None) ops"

section \<open>Exporting a table (\<open>Database.export_table\<close>)\<close>

subsection \<open>More string primitives\<close>

text \<open>\<open>s.split()\<close>: the maximal runs of non-whitespace characters.\<close>

fun split_ws_from :: "string \<Rightarrow> string \<Rightarrow> string list" where
  "split_ws_from word [] = (if word = [] then [] else [rev word])"
| "split_ws_from word (c # cs) =
     (if isspace c then (if word = [] then split_ws_from [] cs
                         else rev word # split_ws_from [] cs)
      else split_ws_from (c # word) cs)"

definition split_ws :: "string \<Rightarrow> string list" where
  "split_ws s = split_ws_from [] s"

text \<open>\<open>sep.join(xs)\<close>.\<close>

fun join :: "string \<Rightarrow> string list \<Rightarrow> string" where
  "join sep [] = []"
| "join sep [x] = x"
| "join sep (x # y # ys) = x @ sep @ join sep (y # ys)"

text \<open>\<open>s.lower()\<close> on the code points below 256, and \<open>s.upper()\<close> on ASCII.\<close>

definition lower_char :: "char \<Rightarrow> char" where
  "lower_char c = (let n = (of_char c :: nat) in
     if (65 \<le> n \<and> n \<le> 90) \<or> (192 \<le> n \<and> n \<le> 222 \<and> n \<noteq> 215) then char_of (n + 32) else c)"

definition lower :: "string \<Rightarrow> string" where
  "lower s = map lower_char s"

definition upper_char :: "char \<Rightarrow> char" where
  "upper_char c = (let n = (of_char c :: nat) in
     if 97 \<le> n \<and> n \<le> 122 then char_of (n - 32) else c)"

definition upper :: "string \<Rightarrow> string" where
  "upper s = map upper_char s"

text \<open>\<open>str(n)\<close> for an integer: decimal digits, with a minus sign when negative.\<close>

definition digit_char :: "nat \<Rightarrow> char" where
  "digit_char d = char_of (48 + d)"

function str_nat :: "nat \<Rightarrow> string" where
  "str_nat n = (if n < 10 then [digit_char n] else str_nat (n div 10) @ [digit_char (n mod 10)])"
  by pat_completeness auto
termination
  by (relation "measure id") auto

declare str_nat.simps [simp del]

definition str_int :: "int \<Rightarrow> string" where
  "str_int i = (if i < 0 then CHR ''-'' # str_nat (nat (- i)) else str_nat (nat i))"

text \<open>
  \<open>int(s)\<close> for a string: surrounding whitespace, an optional sign, then decimal
  digits, where single underscores may separate digits.  \<open>None\<close> stands for
  \<open>ValueError\<close>.
\<close>

definition is_digit :: "char \<Rightarrow> bool" where
  "is_digit c = (let n = (of_char c :: nat) in 48 \<le> n \<and> n \<le> 57)"

fun valid_digits :: "string \<Rightarrow> bool" where
  "valid_digits [] = False"
| "valid_digits [c] = is_digit c"
| "valid_digits (c # d # cs) =
     (is_digit c \<and> (if d = CHR ''_'' then valid_digits cs else valid_digits (d # cs)))"

definition digits_value :: "string \<Rightarrow> nat" where
  "digits_value ds = foldl (\<lambda>acc c. 10 * acc + (of_char c - 48)) 0 ds"

definition py_int :: "string \<Rightarrow> int option" where
  "py_int s =
     (let t = strip s;
          negative = startswith t ''-'';
          ds = (if startswith t ''-'' \<or> startswith t ''+'' then drop 1 t else t)
      in if valid_digits ds
         then Some ((if negative then - 1 else 1)
                      * int (digits_value (filter (\<lambda>c. c \<noteq> CHR ''_'') ds)))
         else None)"

subsection \<open>Bytes\<close>

text \<open>\<open>value.hex()\<close>: two lowercase hexadecimal digits per byte.\<close>

definition hex_digit :: "nat \<Rightarrow> char" where
  "hex_digit d = (if d < 10 then char_of (48 + d) else char_of (87 + d))"

definition hex_byte :: "byte \<Rightarrow> string" where
  "hex_byte b = [hex_digit (unat b div 16), hex_digit (unat b mod 16)]"

definition bytes_hex :: "byte list \<Rightarrow> string" where
  "bytes_hex value = concat (map hex_byte value)"

text \<open>\<open>value.decode('latin_1')\<close>: every byte becomes the character with its code.\<close>

definition decode_latin_1 :: "byte list \<Rightarrow> string" where
  "decode_latin_1 value = map (\<lambda>b. char_of (unat b)) value"

text \<open>
  The loop that clears \<open>text\<close> and breaks at the first byte \<open>j\<close> with
  \<open>j < 32 or j > 126\<close>.
\<close>

fun all_printable :: "byte list \<Rightarrow> bool" where
  "all_printable [] = True"
| "all_printable (j # js) = (if unat j < 32 \<or> unat j > 126 then False else all_printable js)"

subsection \<open>The variables collected from \<open>SET @var = value\<close> lines\<close>

text \<open>
  \<open>sql_variables\<close> maps the text of a value to the variable's name.  A Python
  dictionary iterates in the order in which its keys were first inserted, and storing
  under an existing key keeps the key's position: an association list with that update.
\<close>

type_synonym sql_vars = "(string \<times> string) list"

fun dict_set :: "string \<Rightarrow> string \<Rightarrow> sql_vars \<Rightarrow> sql_vars" where
  "dict_set k v [] = [(k, v)]"
| "dict_set k v ((k', v') # d) =
     (if k' = k then (k, v) # d else (k', v') # dict_set k v d)"

text \<open>
  The scan of one line for a variable; \<open>parts[1]\<close> raises when the line has no \<open>=\<close>.
\<close>

definition scan_set :: "string \<Rightarrow> sql_vars \<Rightarrow> exn + sql_vars" where
  "scan_set line sql_variables =
     (if startswith (strip line) ''SET @'' then
        (let parts = split_on ''='' (strip line) in
         case split_ws (hd parts) of
           w0 # var_name # ws \<Rightarrow>
             (case tl parts of
                [] \<Rightarrow> Inl IndexError
              | p1 # ps \<Rightarrow>
                  Inr (dict_set
                         (strip (hd (split_on ''--'' (filter (\<lambda>c. c \<noteq> CHR '';'') p1))))
                         var_name sql_variables))
         | _ \<Rightarrow> Inl IndexError)
      else Inr sql_variables)"

text \<open>
  The variables in effect after scanning a list of lines, and the declarations
  \<open>(value text, name)\<close> those lines make, in order.
\<close>

fun scan_lines :: "string list \<Rightarrow> sql_vars \<Rightarrow> exn + sql_vars" where
  "scan_lines [] sql_variables = Inr sql_variables"
| "scan_lines (line # ls) sql_variables =
     (case scan_set line sql_variables of
        Inl e \<Rightarrow> Inl e
      | Inr sql_variables' \<Rightarrow> scan_lines ls sql_variables')"

text \<open>
  The declaration \<open>(value text, name)\<close> a single \<open>SET @var = value\<close> line makes, and the
  declarations of a list of lines in their order.
\<close>

definition line_declaration :: "string \<Rightarrow> (string \<times> string) option" where
  "line_declaration line = (case scan_set line [] of Inr [d] \<Rightarrow> Some d | _ \<Rightarrow> None)"

definition declarations :: "string list \<Rightarrow> (string \<times> string) list" where
  "declarations lines = List.map_filter line_declaration lines"

subsection \<open>Formatting one value\<close>

definition quote :: string where
  "quote = [CHR 0x27]"

text \<open>\<open>value.replace("'", "\\'")\<close>: a backslash before every single quote.\<close>

fun escape_quotes :: "string \<Rightarrow> string" where
  "escape_quotes [] = []"
| "escape_quotes (c # cs) =
     (if c = CHR 0x27 then CHR 0x5C # CHR 0x27 # escape_quotes cs else c # escape_quotes cs)"

text \<open>
  The names of the \<open>pet_skills\<close> branch: for every key \<open>var\<close> of \<open>sql_variables\<close>, in
  dictionary order, its name when \<open>value & int(var)\<close> is not zero.
\<close>

fun var_list :: "int \<Rightarrow> sql_vars \<Rightarrow> exn + string list" where
  "var_list value [] = Inr []"
| "var_list value ((var, name) # d) =
     (case py_int var of
        None \<Rightarrow> Inl ValueError
      | Some n \<Rightarrow>
          (case var_list value d of
             Inl e \<Rightarrow> Inl e
           | Inr names \<Rightarrow> Inr (if value AND n \<noteq> 0 then name # names else names)))"

text \<open>The branches of the loop over \<open>enumerate(values)\<close>, for column \<open>i\<close>.\<close>

fun format_value ::
  "string \<Rightarrow> (int \<Rightarrow> int \<Rightarrow> string) \<Rightarrow> column list \<Rightarrow> sql_vars \<Rightarrow> nat \<Rightarrow> cell \<Rightarrow> exn + string"
where
  "format_value table_name ff desc sql_variables i SqlNull = Inr ''NULL''"
| "format_value table_name ff desc sql_variables i (SqlBytes value) =
     (if length value = 0 then Inr (quote @ quote)
      else if table_name = ''npc_list'' \<and> i = 1 then
        (if all_printable value then Inr (quote @ decode_latin_1 value @ quote)
         else Inr (''0x'' @ upper (bytes_hex value)))
      else Inr (''0x'' @ upper (bytes_hex value)))"
| "format_value table_name ff desc sql_variables i (SqlStr value) =
     Inr (quote @ escape_quotes value @ quote)"
| "format_value table_name ff desc sql_variables i (SqlInt value) =
     (if table_name = ''mob_droplist'' \<and> i = 5
         \<and> map_of sql_variables (str_int value) \<noteq> None
      then Inr (the (map_of sql_variables (str_int value)))
      else if table_name = ''pet_skills'' \<and> i = 9 then
        (case var_list value sql_variables of
           Inl e \<Rightarrow> Inl e
         | Inr names \<Rightarrow> Inr (join '' | '' names))
      else if i < length desc then
        (if type_code (desc ! i) = FIELD_TYPE_FLOAT \<and> scale (desc ! i) > 0
         then Inr (ff (scale (desc ! i)) value)
         else Inr (str_int value))
      else Inl IndexError)"

fun format_values ::
  "string \<Rightarrow> (int \<Rightarrow> int \<Rightarrow> string) \<Rightarrow> column list \<Rightarrow> sql_vars \<Rightarrow> nat \<Rightarrow> cell list
     \<Rightarrow> exn + string list"
where
  "format_values table_name ff desc sql_variables i [] = Inr []"
| "format_values table_name ff desc sql_variables i (value # values) =
     (case format_value table_name ff desc sql_variables i value of
        Inl e \<Rightarrow> Inl e
      | Inr s \<Rightarrow>
          (case format_values table_name ff desc sql_variables (Suc i) values of
             Inl e \<Rightarrow> Inl e
           | Inr ss \<Rightarrow> Inr (s # ss)))"

text \<open>\<open>",".join(updated_values)\<close> for one row.\<close>

definition format_row ::
  "string \<Rightarrow> (int \<Rightarrow> int \<Rightarrow> string) \<Rightarrow> column list \<Rightarrow> sql_vars \<Rightarrow> cell list \<Rightarrow> exn + string"
where
  "format_row table_name ff desc sql_variables values =
     (case format_values table_name ff desc sql_variables 0 values of
        Inl e \<Rightarrow> Inl e
      | Inr updated_values \<Rightarrow> Inr (join '','' updated_values))"

subsection \<open>Rewriting one line\<close>

text \<open>
  The text the regular expression \<^verbatim>\<open>insert into `<table>` values \(\<close> matches.  Table
  names are taken to consist of letters, digits and underscores, for which the
  interpolated pattern matches exactly this text.
\<close>

definition insert_pattern :: "string \<Rightarrow> string" where
  "insert_pattern table_name = ''insert into `'' @ table_name @ ''` values (''"

text \<open>\<open>re.match\<close> on the stripped, lowercased line succeeds.\<close>

definition is_insert :: "string \<Rightarrow> string \<Rightarrow> bool" where
  "is_insert table_name line = prefix (insert_pattern table_name) (lower (strip line))"

text \<open>\<open>insert_start.end()\<close>.\<close>

definition insert_start_end :: "string \<Rightarrow> nat" where
  "insert_start_end table_name = length (insert_pattern table_name)"

text \<open>
  What follows the new \<open>values);\<close>: for a line with \<open>--\<close>, the text after the first
  \<open>);\<close> of the line (\<open>line.index\<close> raises when there is none), otherwise a newline.
\<close>

definition line_tail :: "string \<Rightarrow> exn + string" where
  "line_tail line =
     (if contains ''--'' line then
        (case find_sub '');'' line of
           None \<Rightarrow> Inl ValueError
         | Some n \<Rightarrow>
             (let insert_end = n + 2;
                  before_comment = hd (split_on ''--'' (drop insert_end line))
              in Inr (before_comment @ drop (insert_end + length before_comment) line)))
      else Inr [NL])"

text \<open>
  The body of the loop over the lines.  The state is \<open>sql_variables\<close> and \<open>row_index\<close>;
  the result is the line appended to \<open>updated_lines\<close> and the new state.
\<close>

definition export_line ::
  "string \<Rightarrow> (int \<Rightarrow> int \<Rightarrow> string) \<Rightarrow> result_set \<Rightarrow> sql_vars \<times> nat \<Rightarrow> string
     \<Rightarrow> exn + (string \<times> sql_vars \<times> nat)"
where
  "export_line table_name ff rs state line =
     (case scan_set line (fst state) of
        Inl e \<Rightarrow> Inl e
      | Inr sql_variables \<Rightarrow>
          if is_insert table_name line then
            (if snd state < length (rows rs) then
               (case format_row table_name ff (description rs) sql_variables
                       (rows rs ! snd state) of
                  Inl e \<Rightarrow> Inl e
                | Inr values \<Rightarrow>
                    (case line_tail line of
                       Inl e \<Rightarrow> Inl e
                     | Inr tail \<Rightarrow>
                         Inr (take (insert_start_end table_name) line @ values @ '');'' @ tail,
                              sql_variables, snd state + 1)))
             else Inl IndexError)
          else Inr (line, sql_variables, snd state))"

fun export_lines ::
  "string \<Rightarrow> (int \<Rightarrow> int \<Rightarrow> string) \<Rightarrow> result_set \<Rightarrow> sql_vars \<times> nat \<Rightarrow> string list
     \<Rightarrow> exn + string list"
where
  "export_lines table_name ff rs state [] = Inr []"
| "export_lines table_name ff rs state (line # sql_lines) =
     (case export_line table_name ff rs state line of
        Inl e \<Rightarrow> Inl e
      | Inr (updated_line, state') \<Rightarrow>
          (case export_lines table_name ff rs state' sql_lines of
             Inl e \<Rightarrow> Inl e
           | Inr updated_lines \<Rightarrow> Inr (updated_line # updated_lines)))"

subsection \<open>Files and the whole export\<close>

text \<open>
  The text files of the checkout, by path, as decoded text.  \<open>readlines()\<close> cuts the
  text after every newline; \<open>writelines\<close> writes the lines one after the other.
\<close>

type_synonym files = "string \<rightharpoonup> string"

fun readlines :: "string \<Rightarrow> string list" where
  "readlines [] = []"
| "readlines (c # cs) =
     (if c = NL then [c] # readlines cs
      else (case readlines cs of
              [] \<Rightarrow> [[c]]
            | l # ls \<Rightarrow> (c # l) # ls))"

definition writelines :: "string list \<Rightarrow> string" where
  "writelines ls = concat ls"

definition sql_file_path :: "string \<Rightarrow> string \<Rightarrow> string" where
  "sql_file_path root name = path_join (path_join root ''sql'') name"

text \<open>
  The \<open>try\<close> block.  An exception is returned together with the files as they are when
  it is raised.  Writing the file back is taken to succeed.
\<close>

definition export_table_body ::
  "string \<Rightarrow> cursor \<Rightarrow> files \<Rightarrow> string \<Rightarrow> (exn \<times> files) + files"
where
  "export_table_body root cur fs table_name =
     (case select_all cur table_name of
        Inl e \<Rightarrow> Inl (e, fs)
      | Inr rs \<Rightarrow>
          (case fs (sql_file_path root (table_name @ ''.sql'')) of
             None \<Rightarrow> Inl (FileNotFoundError, fs)
           | Some content \<Rightarrow>
               (case export_lines table_name (format_fixed cur) rs ([], 0)
                       (readlines content) of
                  Inl e \<Rightarrow> Inl (e, fs)
                | Inr updated_lines \<Rightarrow>
                    Inr (fs(sql_file_path root (table_name @ ''.sql'')
                              \<mapsto> writelines updated_lines)))))"

text \<open>
  \<open>try: ... except Exception as e: print(f"Database error: {e}")\<close>.  The result is how
  the call ends for its caller: \<open>Inl\<close> an exception that propagates, or \<open>Inr\<close> the
  files together with the exception that was printed, if any.
\<close>

definition export_table ::
  "string \<Rightarrow> cursor \<Rightarrow> files \<Rightarrow> string \<Rightarrow> exn + (files \<times> exn option)"
where
  "export_table root cur fs table_name =
     (case export_table_body root cur fs table_name of
        Inl (e, fs') \<Rightarrow> Inr (fs', Some e)
      | Inr fs' \<Rightarrow> Inr (fs', None))"

text \<open>
  Two values that one column can hold: \<open>None\<close> for SQL \<open>NULL\<close>, or values of the one
  Python type the connector produces for the column.
\<close>

fun same_column :: "cell \<Rightarrow> cell \<Rightarrow> bool" where
  "same_column SqlNull w = True"
| "same_column v SqlNull = True"
| "same_column (SqlBytes a) (SqlBytes b) = True"
| "same_column (SqlStr a) (SqlStr b) = True"
| "same_column (SqlInt a) (SqlInt b) = True"
| "same_column v w = False"

text \<open>
  Column \<open>i\<close> of the table is written literally: it is neither of the two columns that
  are rewritten with variable names, and its values are not formatted as floats.
\<close>

definition literal_column :: "string \<Rightarrow> column list \<Rightarrow> nat \<Rightarrow> bool" where
  "literal_column table_name desc i =
     (\<not> (table_name = ''mob_droplist'' \<and> i = 5)
      \<and> \<not> (table_name = ''pet_skills'' \<and> i = 9)
      \<and> i < length desc
      \<and> \<not> (type_code (desc ! i) = FIELD_TYPE_FLOAT \<and> scale (desc ! i) > 0))"

section \<open>The command line (\<open>main\<close>)\<close>

subsection \<open>\<open>Database.create\<close>\<close>

text \<open>
  The errors one file of the import loop contributes:
  \<^verbatim>\<open>sql_file = os.path.normpath(sql_file).replace("\\", "/")\<close>, then the import when
  the file exists.
\<close>

definition backslash_to_slash :: "string \<Rightarrow> string" where
  "backslash_to_slash s = map (\<lambda>c. if c = CHR 0x5C then CHR ''/'' else c) s"

definition create_file_errors :: "world \<Rightarrow> string \<Rightarrow> string list" where
  "create_file_errors w sql_file =
     (let sql_file' = backslash_to_slash (normpath w sql_file) in
      if path_exists w sql_file' then fetch_errors (run_mysql_source w sql_file') else [])"

text \<open>The return value of \<open>create\<close>: \<open>True\<close> when no error line was collected.\<close>

definition create :: "world \<Rightarrow> exn + bool" where
  "create w =
     (case create_import_files w of
        Inl e \<Rightarrow> Inl e
      | Inr import_files \<Rightarrow>
          Inr (fetch_errors (run_mysqladmin_create w)
                 @ concat (map (create_file_errors w) import_files) = []))"

subsection \<open>Arguments and exit status\<close>

record args =
  arg_command :: "string option"
  arg_backup :: bool
  arg_lite :: bool
  arg_yes :: bool
  arg_database_name :: string
  arg_import_file :: string
  arg_table_name :: "string option"
  arg_all :: bool

text \<open>
  How the process ends: \<open>Common.close(status)\<close>, or an exception that no handler of
  \<open>main\<close> catches.
\<close>

datatype outcome = Exit int | Uncaught exn

text \<open>The table names \<open>export --all\<close> collects from the \<open>sql\<close> directory.\<close>

definition export_all_tables :: "world \<Rightarrow> string list" where
  "export_all_tables w =
     (case walk_files w (path_join (root_path w) ''sql'') of
        None \<Rightarrow> []
      | Some filenames \<Rightarrow>
          map drop_ext (filter (\<lambda>filename. endswith filename ''.sql'') (sort filenames)))"

text \<open>
  The dispatch on \<open>args.command\<close>, entered with the status left by the backup step.
  \<open>export_table\<close> catches its own exceptions and returns nothing, so the export branch
  leaves the status as it is; \<open>export_tables.remove("triggers")\<close> raises when there is
  no \<open>triggers.sql\<close>.
\<close>

definition dispatch :: "world \<Rightarrow> args \<Rightarrow> int \<Rightarrow> outcome" where
  "dispatch w a status =
     (let command = the (arg_command a) in
      if command = ''setup'' then
        (if \<not> arg_yes a then Exit (- 1)
         else if arg_database_name a \<noteq> SQL_DATABASE (net w) then Exit (- 1)
         else (case create w of
                 Inl e \<Rightarrow> Uncaught e
               | Inr ok \<Rightarrow> Exit (if ok then status else - 1)))
      else if command = ''u'' \<or> command = ''update'' then
        (case migrations_error w of
           Some e \<Rightarrow> Uncaught e
         | None \<Rightarrow>
            (case update_import_files w of
               Inl e \<Rightarrow> Uncaught e
             | Inr import_files \<Rightarrow> Exit status))
      else if command = ''i'' \<or> command = ''import'' then
        (if \<not> arg_yes a then Exit (- 1)
         else if \<not> path_exists w (arg_import_file a) then Exit (- 1)
         else if fetch_errors (run_mysql_source w (arg_import_file a)) \<noteq> [] then Exit (- 1)
         else Exit status)
      else if command = ''e'' \<or> command = ''export'' then
        (if \<not> truthy_opt (arg_table_name a) \<and> \<not> arg_all a then Exit (- 1)
         else if arg_all a then
           (if ''triggers'' \<in> set (export_all_tables w) then Exit status
            else Uncaught ValueError)
         else Exit status)
      else Exit status)"

definition main :: "world \<Rightarrow> args \<Rightarrow> outcome" where
  "main w a =
     (if \<not> mysql_available w then Exit (- 1)
      else if arg_backup a \<or> arg_lite a then
        (case run_mysqldump w of
           Inl e \<Rightarrow> Uncaught e
         | Inr result \<Rightarrow>
             (if returncode result = 0 \<and> truthy_opt (arg_command a)
              then dispatch w a (returncode result)
              else Exit (returncode result)))
      else if truthy_opt (arg_command a) then dispatch w a 0
      else Exit 0)"

text \<open>
  The backup step lets the command run: the client binaries were found, and a requested
  backup finished with return code 0.
\<close>

definition backup_step_ok :: "world \<Rightarrow> args \<Rightarrow> bool" where
  "backup_step_ok w a =
     (mysql_available w \<and>
      (if arg_backup a \<or> arg_lite a
       then (case run_mysqldump w of Inl e \<Rightarrow> False | Inr result \<Rightarrow> returncode result = 0)
       else True))"

section \<open>A sample installation\<close>

text \<open>
  A checkout at \<open>/srv\<close> without recorded revisions.  Its \<open>sql\<close> directory holds
  \<open>triggers.sql\<close>, \<open>abilities.sql\<close> and \<open>chars.sql\<close>; \<open>modules/init.txt\<close> enables
  one module file.  Of the protected tables the schema \<open>xidb\<close> has \<open>accounts\<close> only.
  The settings file \<open>network.lua\<close> exists in the defaults directory and, with another
  \<open>SQL_HOST\<close>, in the overrides directory.
\<close>

definition sample_net :: network where
  "sample_net = \<lparr>SQL_HOST = ''localhost'', SQL_PORT = ''3306'', SQL_LOGIN = ''xi'',
     SQL_PASSWORD = ''pw'', SQL_DATABASE = ''xidb''\<rparr>"

definition ok_process :: completed_process where
  "ok_process = \<lparr>returncode = 0, stderr_lines = []\<rparr>"

definition sample_world :: world where
  "sample_world = \<lparr>
     root_path = ''/srv'',
     version = [],
     cfg = \<lparr>db_ver = None, mysql_bin = []\<rparr>,
     net = sample_net,
     catalog = [(''xidb'', ''accounts''), (''xidb'', ''abilities''), (''other'', ''chars'')],
     git_diff = (\<lambda>a b. Inl GitError),
     path_exists = (\<lambda>f. True),
     walk_files = (\<lambda>d. if d = ''/srv/sql''
                     then Some [''triggers.sql'', ''abilities.sql'', ''chars.sql'']
                     else None),
     read_lines = (\<lambda>f.
        if f = ''/srv/modules/init.txt''
        then Some [CHR ''#'' # '' modules'' @ [NL], ''custom/extra.sql'' @ [NL]]
        else if f = ''/srv/settings/default/network.lua''
        then Some [''xi.settings.network ='' @ [NL], ''{'' @ [NL],
                   ''    SQL_HOST     = \"127.0.0.1\", -- address'' @ [NL],
                   ''    SQL_DATABASE = \"xidb\",'' @ [NL],
                   ''    -- SQL_PORT  = 3307,'' @ [NL], ''}'' @ [NL]]
        else if f = ''/srv/settings/network.lua''
        then Some [''    SQL_HOST = \"db.local\",'' @ [NL]]
        else None),
     is_dir = (\<lambda>d. d = ''/srv/settings/default''),
     is_file = (\<lambda>f. f \<in> set [''/srv/settings/default/network.lua'',
                                ''/srv/settings/network.lua'']),
     listdir = (\<lambda>d. if d = ''/srv/settings/default'' then Some [''network.lua'']
                   else if d = ''/srv/settings'' then Some [''default'', ''network.lua'']
                   else None),
     glob_sql = (\<lambda>d. []),
     normpath = (\<lambda>f. f),
     mysql_available = True,
     run_mysqladmin_create = ok_process,
     run_mysqldump = Inr ok_process,
     run_mysql_source = (\<lambda>f. ok_process),
     migrations_error = None\<rparr>"

text \<open>Invocations on the sample installation.\<close>

definition no_args :: args where
  "no_args = \<lparr>arg_command = None, arg_backup = False, arg_lite = False, arg_yes = False,
     arg_database_name = [], arg_import_file = [], arg_table_name = None,
     arg_all = False\<rparr>"

definition failed_dump :: completed_process where
  "failed_dump = \<lparr>returncode = 2,
     stderr_lines = [''mysqldump: Got error: 1045: Access denied'']\<rparr>"

text \<open>
  A table \<open>abilities\<close> with an integer and a text column, and its fixture file: a
  comment line, a variable, and two \<open>INSERT\<close> lines, the first with a trailing comment.
\<close>

definition sample_columns :: "column list" where
  "sample_columns = [\<lparr>type_code = 3, scale = 0\<rparr>, \<lparr>type_code = 253, scale = 0\<rparr>]"

definition cursor_of :: "cell list list \<Rightarrow> cursor" where
  "cursor_of rws =
     \<lparr>select_all = (\<lambda>t. if t = ''abilities''
                          then Inr \<lparr>description = sample_columns, rows = rws\<rparr>
                          else Inl DatabaseError),
      format_fixed = (\<lambda>d v. str_int v)\<rparr>"

definition sample_content :: string where
  "sample_content =
     ''-- abilities'' @ [NL] @
     ''SET @NONE = 0; -- nothing'' @ [NL] @
     ''INSERT INTO `abilities` VALUES (1,'cure'); -- first'' @ [NL] @
     ''INSERT INTO `abilities` VALUES (2,'fire');'' @ [NL]"

definition sample_files :: files where
  "sample_files = [''/srv/sql/abilities.sql'' \<mapsto> sample_content]"

text \<open>
  A \<open>pet_skills\<close> fixture with three flag constants and one row of ten integer
  columns, whose bitmask column holds 6.
\<close>

definition pet_lines :: "string list" where
  "pet_lines =
     [''SET @A = 1;'' @ [NL], ''-- flags'' @ [NL], ''SET @B = 4; -- four'' @ [NL],
      ''SET @C = 2;'' @ [NL],
      ''INSERT INTO `pet_skills` VALUES (1,0,0,0,0,0,0,0,0,@B | @C);'' @ [NL]]"

definition pet_result :: result_set where
  "pet_result =
     \<lparr>description = replicate 10 \<lparr>type_code = 3, scale = 0\<rparr>,
      rows = [[SqlInt 1, SqlInt 0, SqlInt 0, SqlInt 0, SqlInt 0, SqlInt 0, SqlInt 0,
               SqlInt 0, SqlInt 0, SqlInt 6]]\<rparr>"

section \<open>Properties\<close>

subsection \<open>Ordering of the import list\<close>







subsection \<open>Tables missing from the schema\<close>

text \<open>A string never equals a row tuple, so \<open>update\<close> keeps every protected table.\<close>

lemma update_protected_files_all:
  "update_protected_files w = map (\<lambda>value. sql_path w (value @ ''.sql'')) protected_tables"
  by (auto simp: update_protected_files_def check_missing_def select_table_names_def
      intro!: arg_cong[where f="map _"] filter_True)

text \<open>
  Claim C3 at a failing input.  The schema \<open>xidb\<close> of the sample installation has the
  table \<open>accounts\<close> and lacks \<open>chars\<close>.  \<open>check_missing\<close> returns one row, the tuple
  of the table that is present, where its documentation promises the missing table
  \<open>chars\<close>; and the list \<open>update\<close> builds starts with the file of \<open>accounts\<close>, a
  table that is not missing.
\<close>

theorem check_missing_returns_present_rows:
  "check_missing sample_world [''accounts'', ''chars''] = [PyTuple [PyStr ''accounts'']]
   \<and> hd (update_protected_files sample_world) = ''/srv/sql/accounts.sql''
   \<and> length (update_protected_files sample_world) = length protected_tables"
proof -
  have "check_missing sample_world [''accounts'', ''chars''] = [PyTuple [PyStr ''accounts'']]"
    by code_simp
  moreover have "hd (update_protected_files sample_world) = ''/srv/sql/accounts.sql''"
    by code_simp
  moreover have "length (update_protected_files sample_world) = length protected_tables"
    by (simp add: update_protected_files_all)
  ultimately show ?thesis by blast
qed

subsection \<open>Settings\<close>

lemma settings_lines_ops:
  "cur = get_or_empty st fk \<Longrightarrow>
   snd (settings_lines fk lines (cur, st)) = fold apply_op (map (Pair fk) (line_ops lines)) st"
proof (induction lines arbitrary: cur st)
  case Nil
  then show ?case by simp
next
  case (Cons line ls)
  show ?case
    using Cons.prems
    by (auto simp: Let_def get_or_empty_def intro!: Cons.IH)
qed

lemma settings_file_ops: "settings_file w f st = fold apply_op (file_ops w f) st"
  by (auto simp: settings_file_def file_ops_def settings_lines_ops split: option.splits)

lemma fold_settings_file_ops:
  "fold (\<lambda>filename. settings_file w (path_join d filename)) names st
     = fold apply_op (dir_ops w d names) st"
  by (induction names arbitrary: st) (simp_all add: dir_ops_def settings_file_ops)

lemma sets_of_Cons:
  "sets_of fk ((f, u) # ops) =
     (if f = fk then (case u of None \<Rightarrow> [] | Some kv \<Rightarrow> [kv]) else []) @ sets_of fk ops"
  by (simp add: sets_of_def split: option.splits)

lemma sets_of_untouched: "fk \<notin> fst ` set ops \<Longrightarrow> sets_of fk ops = []"
  by (induction ops) (auto simp: sets_of_def)

lemma map_upd_add: "m(k \<mapsto> v) ++ n = m ++ (Map.empty(k \<mapsto> v) ++ n)"
  by (rule ext) (simp add: map_add_def split: option.splits)

lemma map_add_twice: "m ++ n ++ n = m ++ n"
  by (rule ext) (simp add: map_add_def split: option.splits)

lemma get_or_empty_apply_op:
  "get_or_empty (apply_op (f, u) st) fk =
     (if fk = f then (case u of None \<Rightarrow> get_or_empty st f
                      | Some (k, v) \<Rightarrow> (get_or_empty st f)(k \<mapsto> v))
      else get_or_empty st fk)"
  by (cases u) (auto simp: get_or_empty_def)

lemma apply_op_lookup:
  "apply_op (f, u) st fk =
     (if fk = f then Some (get_or_empty (apply_op (f, u) st) f) else st fk)"
  by (cases u) (auto simp: get_or_empty_def)

lemma apply_ops_lookup:
  "fold apply_op ops st fk =
     (if fk \<in> fst ` set ops then Some (get_or_empty st fk ++ map_of (rev (sets_of fk ops)))
      else st fk)"
proof (induction ops arbitrary: st)
  case Nil
  then show ?case by simp
next
  case (Cons op ops)
  obtain f u where op: "op = (f, u)" by (cases op)
  have step: "fold apply_op (op # ops) st fk = fold apply_op ops (apply_op (f, u) st) fk"
    by (simp add: op)
  show ?case
  proof (cases "fk = f")
    case False
    then show ?thesis unfolding step Cons.IH
      by (simp add: op sets_of_Cons get_or_empty_apply_op apply_op_lookup del: apply_op.simps)
  next
    case True
    show ?thesis
    proof (cases u)
      case None
      then show ?thesis unfolding step Cons.IH using True
        by (simp add: op sets_of_Cons get_or_empty_apply_op apply_op_lookup sets_of_untouched
              del: apply_op.simps)
    next
      case (Some kv)
      obtain k v where kv: "kv = (k, v)" by (cases kv)
      have "(get_or_empty st f)(k \<mapsto> v) ++ map_of (rev (sets_of f ops))
          = get_or_empty st f ++ map_of (rev (sets_of f ops) @ [(k, v)])"
        by (subst map_upd_add) simp
      then show ?thesis unfolding step Cons.IH using True Some kv
        by (simp add: op sets_of_Cons get_or_empty_apply_op apply_op_lookup sets_of_untouched
              del: apply_op.simps)
    qed
  qed
qed

lemma apply_ops_idem: "fold apply_op ops (fold apply_op ops st) = fold apply_op ops st"
proof (rule ext)
  fix fk
  have "get_or_empty (fold apply_op ops st) fk = 
      (if fk \<in> fst ` set ops then get_or_empty st fk ++ map_of (rev (sets_of fk ops))
      else get_or_empty st fk)"
    by (simp add: get_or_empty_def apply_ops_lookup [of ops st fk])
  then show "fold apply_op ops (fold apply_op ops st) fk = fold apply_op ops st fk"
    by (simp add: apply_ops_lookup [of ops _ fk] map_add_twice)
qed

lemma sets_of_append: "sets_of fk (a @ b) = sets_of fk a @ sets_of fk b"
  by (induction a) (simp_all add: sets_of_def split: option.splits)

lemma settings_dir_ops:
  "settings_dir w d st = Inr st' \<Longrightarrow>
     \<exists>names. listdir w d = Some names \<and> st' = fold apply_op (dir_ops w d names) st"
  by (auto simp: settings_dir_def fold_settings_file_ops split: option.splits)

lemma populate_settings_ops:
  assumes "populate_settings w st = Inr st'"
  shows "\<exists>n1 n2. listdir w (defaults_dir w) = Some n1 \<and> listdir w (overrides_dir w) = Some n2
    \<and> (\<forall>s. populate_settings w s
           = Inr (fold apply_op (dir_ops w (defaults_dir w) n1 @ dir_ops w (overrides_dir w) n2) s))"
  using assms
  by (auto simp: populate_settings_def settings_dir_def fold_settings_file_ops
      split: option.splits sum.splits)

text \<open>
  Claim C6.  Loading the settings a second time leaves the mapping unchanged; and every
  key that the overrides directory assigns ends up with the value the overrides
  directory gives it, whatever the defaults directory (or the mapping before) held.
\<close>

theorem populate_settings_idempotent_overrides_win:
  "(populate_settings w st = Inr st' \<longrightarrow> populate_settings w st' = Inr st')
   \<and> (populate_settings w st = Inr st'
        \<and> settings_dir w (overrides_dir w) Map.empty = Inr ov
        \<and> setting ov fk k = Some v
       \<longrightarrow> setting st' fk k = Some v)"
proof (intro conjI impI)
  assume p: "populate_settings w st = Inr st'"
  from populate_settings_ops [OF p] obtain ops where
    "\<forall>s. populate_settings w s = Inr (fold apply_op ops s)" by blast
  with p show "populate_settings w st' = Inr st'"
    by (auto simp: apply_ops_idem)
next
  assume a: "populate_settings w st = Inr st'
        \<and> settings_dir w (overrides_dir w) Map.empty = Inr ov
        \<and> setting ov fk k = Some v"
  from populate_settings_ops [of w st st'] a obtain n1 n2 where
    n2: "listdir w (overrides_dir w) = Some n2" and
    st': "st' = fold apply_op (dir_ops w (defaults_dir w) n1 @ dir_ops w (overrides_dir w) n2) st"
    by auto
  let ?o1 = "dir_ops w (defaults_dir w) n1" and ?o2 = "dir_ops w (overrides_dir w) n2"
  from settings_dir_ops [of w "overrides_dir w" Map.empty ov] a n2
  have ov: "ov = fold apply_op ?o2 Map.empty" by auto
  from a have touched: "fk \<in> fst ` set ?o2"
    unfolding ov setting_def by (simp add: apply_ops_lookup [of ?o2 _ fk] split: if_splits)
  with a have "map_of (rev (sets_of fk ?o2)) k = Some v"
    unfolding ov setting_def by (simp add: apply_ops_lookup [of ?o2 _ fk] get_or_empty_def)
  then have "(get_or_empty st fk ++ map_of (rev (sets_of fk (?o1 @ ?o2)))) k = Some v"
    by (simp add: sets_of_append)
  with touched show "setting st' fk k = Some v"
    unfolding st' setting_def
    by (auto simp: apply_ops_lookup [of "?o1 @ ?o2" _ fk] image_Un simp del: fold_append)
qed

theorem populate_settings_idempotent_overrides_win_witness:
  "\<exists>st' ov. populate_settings sample_world Map.empty = Inr st'
     \<and> settings_dir sample_world (overrides_dir sample_world) Map.empty = Inr ov
     \<and> setting ov ''network'' ''SQL_HOST'' = Some ''db.local''
     \<and> populate_settings sample_world st' = Inr st'
     \<and> setting st' ''network'' ''SQL_HOST'' = Some ''db.local''"
proof -
  have d: "listdir sample_world (defaults_dir sample_world) = Some [''network.lua'']"
    "listdir sample_world (overrides_dir sample_world) = Some [''default'', ''network.lua'']"
    by code_simp+
  obtain st' where p: "populate_settings sample_world Map.empty = Inr st'"
    by (simp add: populate_settings_def settings_dir_def d)
  obtain ov where o: "settings_dir sample_world (overrides_dir sample_world) Map.empty = Inr ov"
    by (simp add: settings_dir_def d)
  have "(case settings_dir sample_world (overrides_dir sample_world) Map.empty of
           Inl e \<Rightarrow> False
         | Inr ov \<Rightarrow> setting ov ''network'' ''SQL_HOST'' = Some ''db.local'')"
    by code_simp
  with o have s: "setting ov ''network'' ''SQL_HOST'' = Some ''db.local''" by simp
  from populate_settings_idempotent_overrides_win
         [of sample_world Map.empty st' ov "''network''" "''SQL_HOST''" "''db.local''"] p o s
  show ?thesis by blast
qed

subsection \<open>Binary values\<close>

lemma all_printable_iff: "all_printable v \<longleftrightarrow> \<not> (\<exists>j\<in>set v. unat j < 32 \<or> 126 < unat j)"
  by (induction v) auto

lemma upper_hex_digit: 
  assumes "d < 16" shows "upper_char (hex_digit d) \<in> set ''0123456789ABCDEF''"
proof -
  from assms have "d \<in> {0, 1, 2, 3, 4, 5, 6, 7, 8, 9, 10, 11, 12, 13, 14, 15}" by simp arith
  then show ?thesis
    by (elim insertE emptyE) (simp_all add: hex_digit_def upper_char_def char_of_def bit_Suc_0_iff)
qed

lemma upper_hex_byte: "set (upper (hex_byte b)) \<subseteq> set ''0123456789ABCDEF''"
proof -
  have "unat b < 256" using unsigned_less [of b, where ?'a = nat] by simp
  then have "unat b div 16 < 16" by arith
  moreover have "unat b mod 16 < 16" by simp
  ultimately show ?thesis
    using upper_hex_digit [of "unat b div 16"] upper_hex_digit [of "unat b mod 16"]
    by (simp add: hex_byte_def upper_def)
qed

lemma upper_bytes_hex_chars: "set (upper (bytes_hex v)) \<subseteq> set ''0123456789ABCDEF''"
proof (induction v)
  case Nil
  then show ?case by (simp add: bytes_hex_def upper_def)
next
  case (Cons b v)
  have "upper (bytes_hex (b # v)) = upper (hex_byte b) @ upper (bytes_hex v)"
    by (simp add: bytes_hex_def upper_def)
  with Cons upper_hex_byte [of b] show ?case by (simp del: set_simps)
qed

lemma length_bytes_hex: "length (upper (bytes_hex v)) = 2 * length v"
  by (induction v) (simp_all add: bytes_hex_def upper_def hex_byte_def)

text \<open>
  Claim C4.  A non-empty binary value in the name field of \<open>npc_list\<close> (column 1) is
  written as \<open>0x\<close> followed by its uppercase hexadecimal digits iff one of its bytes
  lies outside 32..126, and otherwise as its decoded text between single quotes.  In
  every other position a non-empty binary value is written in the \<open>0x\<close> form.  The
  hexadecimal form has two characters among \<open>0-9A-F\<close> per byte.
\<close>

theorem binary_hex_iff_unprintable:
  "value \<noteq> [] \<longrightarrow>
     format_value ''npc_list'' ff desc vars 1 (SqlBytes value)
       = Inr (if (\<exists>j\<in>set value. unat j < 32 \<or> 126 < unat j)
              then ''0x'' @ upper (bytes_hex value)
              else quote @ decode_latin_1 value @ quote)
     \<and> (\<not> (table_name = ''npc_list'' \<and> i = 1) \<longrightarrow>
          format_value table_name ff desc vars i (SqlBytes value)
            = Inr (''0x'' @ upper (bytes_hex value)))
     \<and> length (upper (bytes_hex value)) = 2 * length value
     \<and> set (upper (bytes_hex value)) \<subseteq> set ''0123456789ABCDEF''"
  using upper_bytes_hex_chars [of "value"]
  by (simp add: all_printable_iff length_bytes_hex del: set_simps)

theorem binary_hex_iff_unprintable_witness:
  "[0x41, 0x7F] \<noteq> ([] :: byte list)
   \<and> format_value ''npc_list'' (\<lambda>d v. []) [] [] 1 (SqlBytes [0x41, 0x7F]) = Inr ''0x417F''
   \<and> format_value ''npc_list'' (\<lambda>d v. []) [] [] 1 (SqlBytes [0x41, 0x7E])
        = Inr (quote @ ''A~'' @ quote)
   \<and> format_value ''npc_list'' (\<lambda>d v. []) [] [] 2 (SqlBytes [0x41, 0x7E]) = Inr ''0x417E''"
proof -
  have e: "upper (bytes_hex [0x41, 0x7F :: byte]) = ''417F''"
    "upper (bytes_hex [0x41, 0x7E :: byte]) = ''417E''"
    "decode_latin_1 [0x41, 0x7E :: byte] = ''A~''"
    by code_simp+
  from binary_hex_iff_unprintable [of "[0x41, 0x7F]" "\<lambda>d v. []" "[]" "[]" "''npc_list''" 1]
       binary_hex_iff_unprintable [of "[0x41, 0x7E]" "\<lambda>d v. []" "[]" "[]" "''npc_list''" 2]
  show ?thesis by (simp add: e)
qed

subsection \<open>Rewriting the fixture file\<close>

lemma export_line_index:
  "export_line T ff rs st line = Inr (l, st') \<Longrightarrow>
     snd st' = snd st + (if is_insert T line then 1 else 0)
     \<and> (is_insert T line \<longrightarrow> snd st < length (rows rs))"
  by (auto simp: export_line_def split: sum.splits if_splits)


lemma export_line_insert:
  "is_insert T line \<Longrightarrow> export_line T ff rs (vars, k) line = Inr (l, vars', k') \<Longrightarrow>
     k < length (rows rs) \<and>
     (\<exists>vals tail. format_row T ff (description rs) vars' (rows rs ! k) = Inr vals
        \<and> line_tail line = Inr tail
        \<and> l = take (insert_start_end T) line @ vals @ '');'' @ tail)"
  by (auto simp: export_line_def split: sum.splits if_splits)

lemma export_line_scan:
  "export_line T ff rs st line = Inr (l, st') \<Longrightarrow> scan_set line (fst st) = Inr (fst st')"
  by (auto simp: export_line_def split: sum.splits if_splits)

lemma export_lines_nth:
  "export_lines T ff rs st lines = Inr out \<Longrightarrow>
     length out = length lines \<and>
     (\<forall>n<length lines. \<exists>vars st'.
        scan_lines (take n lines) (fst st) = Inr vars
        \<and> export_line T ff rs (vars, snd st + length (filter (is_insert T) (take n lines)))
             (lines ! n) = Inr (out ! n, st'))"
proof (induction lines arbitrary: st out)
  case Nil
  then show ?case by simp
next
  case (Cons line ls)
  from Cons.prems obtain l st' out' where
    l: "export_line T ff rs st line = Inr (l, st')" and
    r: "export_lines T ff rs st' ls = Inr out'" and
    out: "out = l # out'"
    by (auto split: sum.splits)
  from export_line_index [OF l]
  have idx: "snd st' = snd st + (if is_insert T line then 1 else 0)" by simp
  from Cons.IH [OF r] have len: "length out' = length ls" and
    ih: "\<forall>n<length ls. \<exists>vars st''.
        scan_lines (take n ls) (fst st') = Inr vars
        \<and> export_line T ff rs (vars, snd st' + length (filter (is_insert T) (take n ls)))
             (ls ! n) = Inr (out' ! n, st'')" by simp_all
  have "\<exists>vars st''.
        scan_lines (take n (line # ls)) (fst st) = Inr vars
        \<and> export_line T ff rs
             (vars, snd st + length (filter (is_insert T) (take n (line # ls))))
             ((line # ls) ! n) = Inr (out ! n, st'')" if "n < length (line # ls)" for n
  proof (cases n)
    case 0
    with l out show ?thesis by (cases st; cases st') auto
  next
    case (Suc m)
    with that ih obtain vars st'' where
      "scan_lines (take m ls) (fst st') = Inr vars"
      "export_line T ff rs (vars, snd st' + length (filter (is_insert T) (take m ls)))
          (ls ! m) = Inr (out' ! m, st'')" by auto
    moreover have "snd st' + length (filter (is_insert T) (take m ls))
        = snd st + length (filter (is_insert T) (take n (line # ls)))"
      using Suc idx by simp
    moreover have "scan_lines (take n (line # ls)) (fst st)
        = scan_lines (take m ls) (fst st')"
      using Suc export_line_scan [OF l] by simp
    ultimately show ?thesis using Suc out by (metis nth_Cons_Suc)
  qed
  with len out show ?case by simp
qed

lemma export_lines_rows_bound:
  "export_lines T ff rs st lines = Inr out \<Longrightarrow> filter (is_insert T) lines \<noteq> [] \<Longrightarrow>
     snd st + length (filter (is_insert T) lines) \<le> length (rows rs)"
proof (induction lines arbitrary: st out)
  case Nil
  then show ?case by simp
next
  case (Cons line ls)
  from Cons.prems obtain l st' out' where
    l: "export_line T ff rs st line = Inr (l, st')" and
    r: "export_lines T ff rs st' ls = Inr out'"
    by (auto split: sum.splits)
  note i = export_line_index [OF l]
  show ?case
  proof (cases "filter (is_insert T) ls = []")
    case True
    with Cons.prems(2) i show ?thesis by (auto split: if_splits)
  next
    case False
    from Cons.IH [OF r False] i show ?thesis by (auto split: if_splits)
  qed
qed






lemma export_table_body_Inl:
  "export_table_body root cur fs T = Inl (e, fs') \<Longrightarrow> fs' = fs"
  by (auto simp: export_table_body_def split: sum.splits option.splits)




text \<open>
  Claim C10.  \<open>export_table\<close> always returns to its caller; whenever its body raises,
  while fetching the rows, reading the file or processing a line, the files are as
  they were before the call.  In particular, a table with fewer rows than its fixture
  file has matching \<open>INSERT\<close> lines leaves the file unchanged.
\<close>

theorem export_table_keeps_file_on_error:
  "(\<exists>fs' printed. export_table root cur fs T = Inr (fs', printed))
   \<and> (export_table_body root cur fs T = Inl (e, fs') \<longrightarrow>
        fs' = fs \<and> export_table root cur fs T = Inr (fs, Some e))
   \<and> (select_all cur T = Inr rs
        \<and> fs (sql_file_path root (T @ ''.sql'')) = Some content
        \<and> length (rows rs) < length (filter (is_insert T) (readlines content)) \<longrightarrow>
        (\<exists>x. export_table root cur fs T = Inr (fs, Some x)))"
proof -
  have 1: "\<exists>fs' printed. export_table root cur fs T = Inr (fs', printed)"
    by (auto simp: export_table_def split: sum.splits)
  have 2: "fs' = fs \<and> export_table root cur fs T = Inr (fs, Some e)"
    if b: "export_table_body root cur fs T = Inl (e, fs')"
  proof -
    from export_table_body_Inl [OF b] have "fs' = fs" .
    with b show ?thesis by (simp add: export_table_def)
  qed
  have 3: "\<exists>x. export_table root cur fs T = Inr (fs, Some x)"
    if a: "select_all cur T = Inr rs
        \<and> fs (sql_file_path root (T @ ''.sql'')) = Some content
        \<and> length (rows rs) < length (filter (is_insert T) (readlines content))"
  proof -
    from a have ne: "filter (is_insert T) (readlines content) \<noteq> []" by auto
    have "\<exists>x. export_lines T (format_fixed cur) rs ([], 0) (readlines content) = Inl x"
    proof (cases "export_lines T (format_fixed cur) rs ([], 0) (readlines content)")
      case (Inl x)
      then show ?thesis by blast
    next
      case (Inr out)
      from export_lines_rows_bound [OF Inr ne] a show ?thesis by simp
    qed
    with a show ?thesis
      by (auto simp: export_table_def export_table_body_def)
  qed
  from 1 2 3 show ?thesis by blast
qed

theorem export_table_keeps_file_on_error_witness:
  "select_all (cursor_of [[SqlInt 7, SqlStr ''x'']]) ''abilities''
     = Inr \<lparr>description = sample_columns, rows = [[SqlInt 7, SqlStr ''x'']]\<rparr>
   \<and> sample_files (sql_file_path ''/srv'' (''abilities'' @ ''.sql'')) = Some sample_content
   \<and> length [[SqlInt 7, SqlStr ''x'']]
       < length (filter (is_insert ''abilities'') (readlines sample_content))
   \<and> (\<exists>x. export_table ''/srv'' (cursor_of [[SqlInt 7, SqlStr ''x'']]) sample_files
              ''abilities'' = Inr (sample_files, Some x))"
proof -
  let ?rs = "\<lparr>description = sample_columns, rows = [[SqlInt 7, SqlStr ''x'']]\<rparr>"
  have h1: "select_all (cursor_of [[SqlInt 7, SqlStr ''x'']]) ''abilities'' = Inr ?rs"
    by (simp add: cursor_of_def)
  have p: "sql_file_path ''/srv'' (''abilities'' @ ''.sql'') = ''/srv/sql/abilities.sql''"
    by code_simp
  have h2: "sample_files (sql_file_path ''/srv'' (''abilities'' @ ''.sql''))
      = Some sample_content"
    unfolding p by (simp add: sample_files_def)
  have h3: "length [[SqlInt 7, SqlStr ''x'']]
       < length (filter (is_insert ''abilities'') (readlines sample_content))"
    by code_simp
  from export_table_keeps_file_on_error
    [of "''/srv''" "cursor_of [[SqlInt 7, SqlStr ''x'']]" sample_files "''abilities''" _ _
        ?rs sample_content] h1 h2 h3
  show ?thesis by simp
qed




subsection \<open>Bitmask expansion\<close>

lemma scan_set_declaration:
  "scan_set line vars = Inr vars' \<Longrightarrow>
     vars' = (case line_declaration line of None \<Rightarrow> vars | Some (k, v) \<Rightarrow> dict_set k v vars)"
  by (auto simp: scan_set_def line_declaration_def Let_def split: if_splits list.splits)

lemma scan_lines_declarations:
  "scan_lines lines vars = Inr vars' \<Longrightarrow>
     vars' = fold (\<lambda>(k, v). dict_set k v) (declarations lines) vars"
proof (induction lines arbitrary: vars)
  case Nil
  then show ?case by (simp add: declarations_def)
next
  case (Cons line ls)
  from Cons.prems obtain v1 where s: "scan_set line vars = Inr v1"
    and r: "scan_lines ls v1 = Inr vars'" by (auto split: sum.splits)
  from scan_set_declaration [OF s] Cons.IH [OF r] show ?case
    by (auto simp: declarations_def split: option.splits)
qed

lemma dict_set_fresh: "k \<notin> fst ` set d \<Longrightarrow> dict_set k v d = d @ [(k, v)]"
  by (induction d) auto

lemma fold_dict_set_distinct:
  "distinct (map fst (vars @ ds)) \<Longrightarrow> fold (\<lambda>(k, v). dict_set k v) ds vars = vars @ ds"
proof (induction ds arbitrary: vars)
  case Nil
  then show ?case by simp
next
  case (Cons d ds)
  obtain k v where d: "d = (k, v)" by (cases d)
  from Cons.prems d have "k \<notin> fst ` set vars" by auto
  then have "dict_set k v vars = vars @ [(k, v)]" by (rule dict_set_fresh)
  moreover from Cons.prems d have "distinct (map fst ((vars @ [(k, v)]) @ ds))" by simp
  ultimately show ?case using Cons.IH [of "vars @ [(k, v)]"] d by simp
qed

lemma var_list_all_int:
  "\<forall>(var, name)\<in>set vars. py_int var \<noteq> None \<Longrightarrow>
     var_list value vars
       = Inr (map snd (filter (\<lambda>(var, name). value AND the (py_int var) \<noteq> 0) vars))"
  by (induction vars) auto

lemma scan_lines_snoc:
  "scan_lines (xs @ [x]) v =
     (case scan_lines xs v of Inl e \<Rightarrow> Inl e | Inr v' \<Rightarrow> scan_set x v')"
  by (induction xs arbitrary: v) (auto split: sum.splits)

lemma format_values_nth:
  "format_values T ff desc vars i vs = Inr ss \<Longrightarrow>
     length ss = length vs
     \<and> (\<forall>j<length vs. format_value T ff desc vars (i + j) (vs ! j) = Inr (ss ! j))"
proof (induction vs arbitrary: i ss)
  case Nil
  then show ?case by simp
next
  case (Cons v vs)
  from Cons.prems obtain s ss' where
    s: "format_value T ff desc vars i v = Inr s" and
    r: "format_values T ff desc vars (Suc i) vs = Inr ss'" and
    ss: "ss = s # ss'"
    by (auto split: sum.splits)
  from Cons.IH [OF r] have len: "length ss' = length vs" and
    ih: "\<forall>j<length vs. format_value T ff desc vars (Suc i + j) (vs ! j) = Inr (ss' ! j)"
    by simp_all
  have "format_value T ff desc vars (i + j) ((v # vs) ! j) = Inr (ss ! j)"
    if "j < length (v # vs)" for j
    using that s ih ss by (cases j) auto
  with len ss show ?case by simp
qed

lemma insert_line_declares_nothing: "is_insert T line \<Longrightarrow> line_declaration line = None"
proof -
  assume i: "is_insert T line"
  have "\<not> startswith (strip line) ''SET @''"
  proof
    assume "startswith (strip line) ''SET @''"
    then obtain r where "strip line = ''SET @'' @ r" by (auto simp: startswith_def prefix_def)
    with i show False
      by (simp add: is_insert_def insert_pattern_def lower_def lower_char_def)
  qed
  then show ?thesis by (simp add: line_declaration_def scan_set_def)
qed

lemma declarations_snoc_insert:
  "n < length lines \<Longrightarrow> is_insert T (lines ! n) \<Longrightarrow>
     declarations (take (Suc n) lines) = declarations (take n lines)"
  by (simp add: take_Suc_conv_app_nth declarations_def List.map_filter_def
        insert_line_declares_nothing)

text \<open>
  Claim C5, as amended.  Take a line of the \<open>pet_skills\<close> fixture that is rewritten,
  and let the \<open>SET @var = value\<close> lines before it declare pairwise distinct value
  texts, each an integer literal.  Then the line is written with the values of the next
  fetched row, and when that row holds an integer in the bitmask column (index 9), the
  text written for it is the names, joined by \<open>" | "\<close> in declaration order, of exactly
  the declared constants whose value has a set bit in common with that integer.
\<close>

theorem pet_skills_bitmask_names:
  assumes "export_lines ''pet_skills'' ff rs ([], 0) lines = Inr out"
    and "n < length lines" and "is_insert ''pet_skills'' (lines ! n)"
    and "distinct (map fst (declarations (take n lines)))"
    and "\<forall>(var, name)\<in>set (declarations (take n lines)). py_int var \<noteq> None"
  shows "\<exists>updated_values tail.
      length (filter (is_insert ''pet_skills'') (take n lines)) < length (rows rs)
      \<and> out ! n = take (insert_start_end ''pet_skills'') (lines ! n)
                    @ join '','' updated_values @ '');'' @ tail
      \<and> (\<forall>value.
            9 < length (rows rs ! length (filter (is_insert ''pet_skills'') (take n lines)))
            \<and> rows rs ! length (filter (is_insert ''pet_skills'') (take n lines)) ! 9
                = SqlInt value \<longrightarrow>
            9 < length updated_values
            \<and> updated_values ! 9
                = join '' | ''
                    (map snd (filter (\<lambda>(var, name). value AND the (py_int var) \<noteq> 0)
                                (declarations (take n lines)))))"
proof -
  let ?k = "length (filter (is_insert ''pet_skills'') (take n lines))"
  let ?d = "declarations (take n lines)"
  from export_lines_nth [OF assms(1)] assms(2) obtain vars l_vars l_k where
    s: "scan_lines (take n lines) [] = Inr vars" and
    e: "export_line ''pet_skills'' ff rs (vars, ?k) (lines ! n) = Inr (out ! n, l_vars, l_k)"
    by (metis add_0 fst_conv snd_conv prod.collapse)
  from export_line_scan [OF e] have "scan_set (lines ! n) vars = Inr l_vars" by simp
  with s assms(2) have "scan_lines (take (Suc n) lines) [] = Inr l_vars"
    by (simp add: take_Suc_conv_app_nth scan_lines_snoc)
  from scan_lines_declarations [OF this] declarations_snoc_insert [OF assms(2,3)]
    fold_dict_set_distinct [of "[]" ?d] assms(4)
  have lv: "l_vars = ?d" by simp
  from export_line_insert [OF assms(3) e] obtain vals tail where
    k: "?k < length (rows rs)" and
    fr: "format_row ''pet_skills'' ff (description rs) ?d (rows rs ! ?k) = Inr vals" and
    o: "out ! n = take (insert_start_end ''pet_skills'') (lines ! n) @ vals @ '');'' @ tail"
    unfolding lv by blast
  from fr obtain ss where
    fv: "format_values ''pet_skills'' ff (description rs) ?d 0 (rows rs ! ?k) = Inr ss"
    and vals: "vals = join '','' ss"
    by (auto simp: format_row_def split: sum.splits)
  from format_values_nth [OF fv] have len: "length ss = length (rows rs ! ?k)" and
    nth: "\<forall>j<length (rows rs ! ?k).
        format_value ''pet_skills'' ff (description rs) ?d (0 + j) (rows rs ! ?k ! j)
          = Inr (ss ! j)" by simp_all
  have "9 < length ss \<and> ss ! 9 = join '' | ''
          (map snd (filter (\<lambda>(var, name). value AND the (py_int var) \<noteq> 0) ?d))"
    if v: "9 < length (rows rs ! ?k) \<and> rows rs ! ?k ! 9 = SqlInt value" for "value"
  proof -
    from v nth have "format_value ''pet_skills'' ff (description rs) ?d 9 (SqlInt value)
        = Inr (ss ! 9)" by force
    with var_list_all_int [OF assms(5), of "value"] v len show ?thesis by simp
  qed
  with k o vals show ?thesis by blast
qed

theorem pet_skills_bitmask_names_witness:
  "export_lines ''pet_skills'' (\<lambda>d v. []) pet_result ([], 0) pet_lines
     = Inr (take 4 pet_lines
            @ [''INSERT INTO `pet_skills` VALUES (1,0,0,0,0,0,0,0,0,@B | @C);'' @ [NL]])
   \<and> is_insert ''pet_skills'' (pet_lines ! 4)
   \<and> declarations (take 4 pet_lines) = [(''1'', ''@A''), (''4'', ''@B''), (''2'', ''@C'')]
   \<and> rows pet_result ! 0 ! 9 = SqlInt 6
   \<and> (\<exists>updated_values tail.
         ''INSERT INTO `pet_skills` VALUES (1,0,0,0,0,0,0,0,0,@B | @C);'' @ [NL]
           = take (insert_start_end ''pet_skills'') (pet_lines ! 4)
               @ join '','' updated_values @ '');'' @ tail
         \<and> updated_values ! 9 = ''@B | @C'')"
proof -
  let ?out = "take 4 pet_lines
            @ [''INSERT INTO `pet_skills` VALUES (1,0,0,0,0,0,0,0,0,@B | @C);'' @ [NL]]"
  let ?vars = "[(''1'', ''@A''), (''4'', ''@B''), (''2'', ''@C'')]"
  have h1: "export_lines ''pet_skills'' (\<lambda>d v. []) pet_result ([], 0) pet_lines = Inr ?out"
    by code_simp
  have h2: "4 < length pet_lines" by code_simp
  have h3: "is_insert ''pet_skills'' (pet_lines ! 4)" by code_simp
  have d: "declarations (take 4 pet_lines) = ?vars" by code_simp
  have h4: "distinct (map fst (declarations (take 4 pet_lines)))" unfolding d by simp
  have h5: "\<forall>(var, name)\<in>set (declarations (take 4 pet_lines)). py_int var \<noteq> None"
    unfolding d by code_simp
  have k: "length (filter (is_insert ''pet_skills'') (take 4 pet_lines)) = 0" by code_simp
  have r: "9 < length (rows pet_result ! 0)" "rows pet_result ! 0 ! 9 = SqlInt 6"
    by code_simp+
  have j: "join '' | ''
        (map snd (filter (\<lambda>(var, name). (6 :: int) AND the (py_int var) \<noteq> 0) ?vars))
      = ''@B | @C''"
    by code_simp
  have o: "?out ! 4 = ''INSERT INTO `pet_skills` VALUES (1,0,0,0,0,0,0,0,0,@B | @C);'' @ [NL]"
    by code_simp
  from pet_skills_bitmask_names [OF h1 h2 h3 h4 h5] obtain updated_values tail where
    "?out ! 4 = take (insert_start_end ''pet_skills'') (pet_lines ! 4)
                  @ join '','' updated_values @ '');'' @ tail"
    "\<forall>value. 9 < length (rows pet_result ! 0) \<and> rows pet_result ! 0 ! 9 = SqlInt value \<longrightarrow>
       updated_values ! 9
         = join '' | '' (map snd (filter (\<lambda>(var, name). value AND the (py_int var) \<noteq> 0) ?vars))"
    unfolding k d by blast
  with r j o have "''INSERT INTO `pet_skills` VALUES (1,0,0,0,0,0,0,0,0,@B | @C);'' @ [NL]
           = take (insert_start_end ''pet_skills'') (pet_lines ! 4)
               @ join '','' updated_values @ '');'' @ tail
         \<and> updated_values ! 9 = ''@B | @C''"
    by metis
  with h1 h3 d r show ?thesis by blast
qed

text \<open>
  Claim C5 as stated fails when two constants are declared with the same value: the
  dictionary keyed by value keeps the later name only, so the first constant is never
  listed although its bit is set.
\<close>

theorem same_value_constants_counterexample:
  "scan_lines [''SET @A = 1;'' @ [NL], ''SET @B = 1;'' @ [NL]] [] = Inr [(''1'', ''@B'')]
   \<and> format_value ''pet_skills'' (\<lambda>d v. []) [] [(''1'', ''@B'')] 9 (SqlInt 1) = Inr ''@B''"
  by code_simp

subsection \<open>Reading the written values back\<close>

lemma of_char_digit_char: "d < 10 \<Longrightarrow> (of_char (digit_char d) :: nat) = 48 + d"
  by (simp add: digit_char_def)

lemma digits_value_snoc:
  "digits_value (ds @ [c]) = 10 * digits_value ds + (of_char c - 48)"
  by (simp add: digits_value_def)

lemma digits_value_str_nat: "digits_value (str_nat n) = n"
proof (induction n rule: str_nat.induct)
  case (1 n)
  show ?case
  proof (cases "n < 10")
    case True
    then show ?thesis
      by (subst str_nat.simps) (simp add: digits_value_def of_char_digit_char)
  next
    case False
    with 1 have "digits_value (str_nat (n div 10)) = n div 10" by simp
    with False show ?thesis
      by (subst str_nat.simps) (simp add: digits_value_snoc of_char_digit_char)
  qed
qed

lemma is_digit_digit_char: "d < 10 \<Longrightarrow> is_digit (digit_char d)"
  by (simp add: is_digit_def of_char_digit_char)

lemma str_nat_digits: "c \<in> set (str_nat n) \<Longrightarrow> is_digit c"
proof (induction n rule: str_nat.induct)
  case (1 n)
  show ?case
  proof (cases "n < 10")
    case True
    with "1.prems" have "c = digit_char n" by (subst (asm) str_nat.simps) simp
    with True show ?thesis by (simp add: is_digit_digit_char)
  next
    case False
    with "1.prems" have "c \<in> set (str_nat (n div 10)) \<or> c = digit_char (n mod 10)"
      by (subst (asm) str_nat.simps) auto
    with False "1.IH" show ?thesis by (auto simp: is_digit_digit_char)
  qed
qed

lemma str_nat_nonempty: "str_nat n \<noteq> []"
  by (subst str_nat.simps) simp

lemma str_nat_inj: "str_nat a = str_nat b \<Longrightarrow> a = b"
  by (metis digits_value_str_nat)

lemma str_int_chars: "c \<in> set (str_int i) \<Longrightarrow> is_digit c \<or> c = CHR ''-''"
  by (auto simp: str_int_def dest: str_nat_digits split: if_splits)

lemma str_int_inj: "str_int a = str_int b \<Longrightarrow> a = b"
proof -
  assume e: "str_int a = str_int b"
  have nd: "\<not> is_digit (CHR ''-'')" by (simp add: is_digit_def)
  have hd: "hd (str_nat n) \<noteq> CHR ''-''" for n
    using str_nat_digits [of "hd (str_nat n)" n] str_nat_nonempty [of n] nd by auto
  have neq: "CHR ''-'' # xs \<noteq> str_nat n" for xs n
    using hd [of n] by (metis list.sel(1))
  show "a = b"
  proof (cases "a < 0"; cases "b < 0")
    assume "a < 0" "b < 0"
    with e have "str_nat (nat (- a)) = str_nat (nat (- b))" by (simp add: str_int_def)
    from str_nat_inj [OF this] \<open>a < 0\<close> \<open>b < 0\<close> show ?thesis by simp
  next
    assume "a < 0" "\<not> b < 0"
    with e neq show ?thesis by (simp add: str_int_def)
  next
    assume "\<not> a < 0" "b < 0"
    with e neq [of _ "nat a"] show ?thesis by (auto simp: str_int_def)
  next
    assume "\<not> a < 0" "\<not> b < 0"
    with e have "str_nat (nat a) = str_nat (nat b)" by (simp add: str_int_def)
    from str_nat_inj [OF this] \<open>\<not> a < 0\<close> \<open>\<not> b < 0\<close> show ?thesis by simp
  qed
qed

lemma str_int_not_NULL: "str_int i \<noteq> ''NULL''"
proof
  assume "str_int i = ''NULL''"
  then have "CHR ''N'' \<in> set (str_int i)" by simp
  from str_int_chars [OF this] show False by (simp add: is_digit_def)
qed

lemma escape_quotes_hd: "escape_quotes s \<noteq> CHR 0x27 # t"
  by (cases s) auto

lemma escape_quotes_inj: "escape_quotes a = escape_quotes b \<Longrightarrow> a = b"
proof (induction a arbitrary: b)
  case Nil
  then show ?case by (cases b) (auto split: if_splits)
next
  case (Cons x a)
  then show ?case
    by (cases b) (auto split: if_splits simp: escape_quotes_hd dest: sym [THEN escape_quotes_hd [THEN notE]])
qed

lemma of_char_upper_hex_digit:
  "d < 16 \<Longrightarrow> (of_char (upper_char (hex_digit d)) :: nat) = (if d < 10 then 48 + d else 55 + d)"
  by (simp add: hex_digit_def upper_char_def Let_def)

lemma upper_hex_digit_inj:
  assumes "d < 16" "e < 16" "upper_char (hex_digit d) = upper_char (hex_digit e)"
  shows "d = e"
proof -
  from assms(3) have "(of_char (upper_char (hex_digit d)) :: nat)
      = of_char (upper_char (hex_digit e))" by simp
  with assms(1,2) show ?thesis
    by (simp add: of_char_upper_hex_digit split: if_splits)
qed

lemma upper_hex_byte_inj:
  assumes "upper (hex_byte a) = upper (hex_byte b)"
  shows "a = b"
proof -
  have la: "unat a < 256" using unsigned_less [of a, where ?'a = nat] by simp
  have lb: "unat b < 256" using unsigned_less [of b, where ?'a = nat] by simp
  from la have da: "unat a div 16 < 16" by arith
  from lb have db: "unat b div 16 < 16" by arith
  from assms have "upper_char (hex_digit (unat a div 16)) = upper_char (hex_digit (unat b div 16))"
    and "upper_char (hex_digit (unat a mod 16)) = upper_char (hex_digit (unat b mod 16))"
    by (simp_all add: hex_byte_def upper_def)
  with da db have "unat a div 16 = unat b div 16" and "unat a mod 16 = unat b mod 16"
    by (auto intro: upper_hex_digit_inj)
  then have "unat a = unat b" by (metis div_mult_mod_eq)
  then show ?thesis by (simp add: word_unat_eq_iff)
qed

lemma upper_bytes_hex_Cons:
  "upper (bytes_hex (b # v)) = upper (hex_byte b) @ upper (bytes_hex v)"
  by (simp add: bytes_hex_def upper_def)

lemma upper_bytes_hex_inj: "upper (bytes_hex v) = upper (bytes_hex w) \<Longrightarrow> v = w"
proof (induction v arbitrary: w)
  case Nil
  then show ?case by (cases w) (simp_all add: bytes_hex_def upper_def hex_byte_def)
next
  case (Cons a v)
  show ?case
  proof (cases w)
    case Nil
    with Cons.prems show ?thesis by (simp add: bytes_hex_def upper_def hex_byte_def)
  next
    case (Cons b w')
    with Cons.prems have "upper (hex_byte a) @ upper (bytes_hex v)
        = upper (hex_byte b) @ upper (bytes_hex w')"
      by (simp add: upper_bytes_hex_Cons)
    moreover have "length (upper (hex_byte a)) = length (upper (hex_byte b))"
      by (simp add: hex_byte_def upper_def)
    ultimately have "upper (hex_byte a) = upper (hex_byte b)"
      and "upper (bytes_hex v) = upper (bytes_hex w')" by simp_all
    with Cons.IH [of w'] upper_hex_byte_inj [of a b] Cons show ?thesis by simp
  qed
qed

lemma decode_latin_1_inj: "decode_latin_1 v = decode_latin_1 w \<Longrightarrow> v = w"
proof (induction v arbitrary: w)
  case Nil
  then show ?case by (simp add: decode_latin_1_def)
next
  case (Cons a v)
  from Cons.prems obtain b w' where w: "w = b # w'"
    and h: "(char_of (unat a) :: char) = char_of (unat b)"
    and t: "decode_latin_1 v = decode_latin_1 w'"
    by (cases w) (auto simp: decode_latin_1_def)
  have "unat a < 256" "unat b < 256"
    using unsigned_less [of a, where ?'a = nat] unsigned_less [of b, where ?'a = nat] by simp_all
  with h have "unat a = unat b"
    using inj_on_char_of_nat by (auto simp: inj_on_def)
  with Cons.IH [OF t] w show ?case by (simp add: word_unat_eq_iff)
qed

lemma decode_latin_1_Nil: "decode_latin_1 v = [] \<longleftrightarrow> v = []"
  by (simp add: decode_latin_1_def)

text \<open>
  Claim C1, as amended.  In every column that is written literally (not one of the two
  columns rewritten with variable names, not formatted as a float), the text
  \<open>export_table\<close> writes for a value determines the value among those the column can
  hold (\<open>NULL\<close>, or values of the column's one type among bytes, text and integer):
  two such values are written alike only when they are equal, so reading the literal
  back can recover the row value.
\<close>

theorem format_value_injective:
  assumes "literal_column T desc i" and "same_column v w"
  shows "format_value T ff desc vars i v = format_value T ff desc vars i w \<longleftrightarrow> v = w"
proof
  assume e: "format_value T ff desc vars i v = format_value T ff desc vars i w"
  show "v = w"
  proof (cases v)
    case SqlNull
    with assms e show ?thesis
      by (cases w) (auto simp: literal_column_def quote_def str_int_not_NULL [symmetric]
          split: if_splits)
  next
    case (SqlBytes a)
    with assms e show ?thesis
      by (cases w)
         (auto simp: literal_column_def quote_def decode_latin_1_Nil split: if_splits
            dest: upper_bytes_hex_inj decode_latin_1_inj)
  next
    case (SqlStr a)
    with assms e show ?thesis
      by (cases w) (auto simp: literal_column_def quote_def dest: escape_quotes_inj)
  next
    case (SqlInt a)
    with assms e show ?thesis
      by (cases w) (auto simp: literal_column_def str_int_not_NULL dest: str_int_inj)
  qed
next
  assume "v = w"
  then show "format_value T ff desc vars i v = format_value T ff desc vars i w" by simp
qed

theorem format_value_injective_witness:
  "literal_column ''abilities'' sample_columns 1
   \<and> same_column (SqlStr ''NULL'') SqlNull
   \<and> format_value ''abilities'' (\<lambda>d v. []) sample_columns [] 1 (SqlStr ''NULL'')
       \<noteq> format_value ''abilities'' (\<lambda>d v. []) sample_columns [] 1 SqlNull"
proof -
  have h: "literal_column ''abilities'' sample_columns 1" "same_column (SqlStr ''NULL'') SqlNull"
    by code_simp+
  from format_value_injective [OF h, of "\<lambda>d v. []" "[]"] h show ?thesis by simp
qed

text \<open>
  Claim C1 as stated fails: column 9 of \<open>pet_skills\<close> holds integers, and two different
  integers whose bits match no declared constant are both written as the empty text.
  No reading of the rewritten file can give both rows back.
\<close>

theorem bitmask_not_injective_counterexample:
  "format_value ''pet_skills'' (\<lambda>d v. []) sample_columns [(''1'', ''@A'')] 9 (SqlInt 0)
     = format_value ''pet_skills'' (\<lambda>d v. []) sample_columns [(''1'', ''@A'')] 9 (SqlInt 2)
   \<and> SqlInt 0 \<noteq> SqlInt 2"
  by code_simp

subsection \<open>Exit status\<close>

lemma main_dispatch:
  "backup_step_ok w a \<Longrightarrow> truthy_opt (arg_command a) \<Longrightarrow> main w a = dispatch w a 0"
  by (auto simp: backup_step_ok_def main_def split: sum.splits if_splits)

text \<open>
  Claim C8, as amended.  The exit code is
  \<^item> \<open>-1\<close> when the client binaries are not found;
  \<^item> the return code of the dump process when a requested backup ends with a nonzero
    return code (no command runs then);
  and otherwise, once the backup step has passed,
  \<^item> \<open>0\<close> when no command is given;
  \<^item> for \<open>setup\<close>: \<open>-1\<close> without \<open>--yes\<close> or on a database-name mismatch, else \<open>0\<close>
    when \<open>create\<close> returns true and \<open>-1\<close> when it returns false;
  \<^item> for \<open>import\<close>: \<open>-1\<close> without \<open>--yes\<close>, for a missing file or when the import
    reports errors, else \<open>0\<close>;
  \<^item> for \<open>export\<close>: \<open>-1\<close> without a table and without \<open>--all\<close>, and \<open>0\<close> for the
    export of one named table, whatever happens inside \<open>export_table\<close>.
\<close>

theorem main_exit_status:
  "(\<not> mysql_available w \<longrightarrow> main w a = Exit (- 1))
   \<and> (mysql_available w \<and> (arg_backup a \<or> arg_lite a) \<and> run_mysqldump w = Inr result
        \<and> returncode result \<noteq> 0 \<longrightarrow> main w a = Exit (returncode result))
   \<and> (backup_step_ok w a \<and> \<not> truthy_opt (arg_command a) \<longrightarrow> main w a = Exit 0)
   \<and> (backup_step_ok w a \<and> arg_command a = Some ''setup'' \<longrightarrow>
        (\<not> arg_yes a \<or> arg_database_name a \<noteq> SQL_DATABASE (net w) \<longrightarrow>
           main w a = Exit (- 1))
        \<and> (arg_yes a \<and> arg_database_name a = SQL_DATABASE (net w) \<longrightarrow>
             (create w = Inr True \<longrightarrow> main w a = Exit 0)
             \<and> (create w = Inr False \<longrightarrow> main w a = Exit (- 1))))
   \<and> (backup_step_ok w a \<and> arg_command a \<in> {Some ''i'', Some ''import''} \<longrightarrow>
        main w a =
          (if \<not> arg_yes a \<or> \<not> path_exists w (arg_import_file a)
              \<or> fetch_errors (run_mysql_source w (arg_import_file a)) \<noteq> []
           then Exit (- 1) else Exit 0))
   \<and> (backup_step_ok w a \<and> arg_command a \<in> {Some ''e'', Some ''export''} \<longrightarrow>
        (\<not> truthy_opt (arg_table_name a) \<and> \<not> arg_all a \<longrightarrow> main w a = Exit (- 1))
        \<and> (truthy_opt (arg_table_name a) \<and> \<not> arg_all a \<longrightarrow> main w a = Exit 0))"
proof (intro conjI impI)
  assume "\<not> mysql_available w"
  then show "main w a = Exit (- 1)" by (simp add: main_def)
next
  assume "mysql_available w \<and> (arg_backup a \<or> arg_lite a) \<and> run_mysqldump w = Inr result
        \<and> returncode result \<noteq> 0"
  then show "main w a = Exit (returncode result)" by (auto simp: main_def)
next
  assume "backup_step_ok w a \<and> \<not> truthy_opt (arg_command a)"
  then show "main w a = Exit 0"
    by (auto simp: backup_step_ok_def main_def split: sum.splits if_splits)
next
  assume a: "backup_step_ok w a \<and> arg_command a = Some ''setup''"
  then have m: "main w a = dispatch w a 0" by (simp add: main_dispatch truthy_str_def)
  { assume "\<not> arg_yes a \<or> arg_database_name a \<noteq> SQL_DATABASE (net w)"
    with a m show "main w a = Exit (- 1)" by (auto simp: dispatch_def) }
  { assume "arg_yes a \<and> arg_database_name a = SQL_DATABASE (net w)" and "create w = Inr True"
    with a m show "main w a = Exit 0" by (auto simp: dispatch_def) }
  { assume "arg_yes a \<and> arg_database_name a = SQL_DATABASE (net w)" and "create w = Inr False"
    with a m show "main w a = Exit (- 1)" by (auto simp: dispatch_def) }
next
  assume a: "backup_step_ok w a \<and> arg_command a \<in> {Some ''i'', Some ''import''}"
  then have m: "main w a = dispatch w a 0" by (auto simp: main_dispatch truthy_str_def)
  from a show "main w a =
          (if \<not> arg_yes a \<or> \<not> path_exists w (arg_import_file a)
              \<or> fetch_errors (run_mysql_source w (arg_import_file a)) \<noteq> []
           then Exit (- 1) else Exit 0)"
    unfolding m by (auto simp: dispatch_def)
next
  assume a: "backup_step_ok w a \<and> arg_command a \<in> {Some ''e'', Some ''export''}"
  then have m: "main w a = dispatch w a 0" by (auto simp: main_dispatch truthy_str_def)
  { assume "\<not> truthy_opt (arg_table_name a) \<and> \<not> arg_all a"
    with a show "main w a = Exit (- 1)" unfolding m by (auto simp: dispatch_def) }
  { assume "truthy_opt (arg_table_name a) \<and> \<not> arg_all a"
    with a show "main w a = Exit 0" unfolding m by (auto simp: dispatch_def) }
qed

theorem main_exit_status_witness:
  "mysql_available (sample_world\<lparr>run_mysqldump := Inr failed_dump\<rparr>)
   \<and> run_mysqldump (sample_world\<lparr>run_mysqldump := Inr failed_dump\<rparr>) = Inr failed_dump
   \<and> returncode failed_dump \<noteq> 0
   \<and> main (sample_world\<lparr>run_mysqldump := Inr failed_dump\<rparr>) (no_args\<lparr>arg_backup := True\<rparr>)
       = Exit (returncode failed_dump)
   \<and> backup_step_ok sample_world
        (no_args\<lparr>arg_command := Some ''export'', arg_table_name := Some ''abilities''\<rparr>)
   \<and> main sample_world
        (no_args\<lparr>arg_command := Some ''export'', arg_table_name := Some ''abilities''\<rparr>)
       = Exit 0
   \<and> backup_step_ok sample_world (no_args\<lparr>arg_command := Some ''setup''\<rparr>)
   \<and> main sample_world (no_args\<lparr>arg_command := Some ''setup''\<rparr>) = Exit (- 1)"
proof -
  let ?w = "sample_world\<lparr>run_mysqldump := Inr failed_dump\<rparr>"
  let ?e = "no_args\<lparr>arg_command := Some ''export'', arg_table_name := Some ''abilities''\<rparr>"
  let ?s = "no_args\<lparr>arg_command := Some ''setup''\<rparr>"
  have h1: "mysql_available ?w" "run_mysqldump ?w = Inr failed_dump"
    "returncode failed_dump \<noteq> 0" "arg_backup (no_args\<lparr>arg_backup := True\<rparr>)"
    by (simp_all add: sample_world_def failed_dump_def)
  have h2: "backup_step_ok sample_world ?e" "arg_command ?e \<in> {Some ''e'', Some ''export''}"
    "truthy_opt (arg_table_name ?e) \<and> \<not> arg_all ?e"
    by (simp_all add: backup_step_ok_def sample_world_def no_args_def truthy_str_def)
  have h3: "backup_step_ok sample_world ?s" "arg_command ?s = Some ''setup''" "\<not> arg_yes ?s"
    by (simp_all add: backup_step_ok_def sample_world_def no_args_def)
  from main_exit_status [of ?w "no_args\<lparr>arg_backup := True\<rparr>" failed_dump] h1
  have "main ?w (no_args\<lparr>arg_backup := True\<rparr>) = Exit (returncode failed_dump)" by blast
  moreover from main_exit_status [of sample_world ?e] h2 have "main sample_world ?e = Exit 0"
    by blast
  moreover from main_exit_status [of sample_world ?s] h3
  have "main sample_world ?s = Exit (- 1)" by blast
  ultimately show ?thesis using h1 h2 h3 by blast
qed

text \<open>
  Claim C8 as stated fails: a backup whose dump process ends with return code 2 makes
  the tool exit with 2, not with \<open>-1\<close>; and a \<open>setup\<close> that succeeds exits with \<open>0\<close>
  whatever the vendor processes returned, since \<open>create\<close> yields a truth value.
\<close>

theorem main_backup_error_counterexample:
  "main (sample_world\<lparr>run_mysqldump := Inr failed_dump\<rparr>) (no_args\<lparr>arg_backup := True\<rparr>)
     = Exit 2
   \<and> main (sample_world\<lparr>run_mysqladmin_create := \<lparr>returncode = 1, stderr_lines = []\<rparr>\<rparr>)
        (no_args\<lparr>arg_command := Some ''setup'', arg_yes := True,
                 arg_database_name := ''xidb''\<rparr>)
     = Exit 0"
  by code_simp

text \<open>
  Claim C9.  For every backup started from the command line, the output file is named
  \<open><database>-<timestamp>-<tag>.sql\<close>, where the tag is \<open>lite\<close> when the
  \<open>--lite\<close> flag supplies the table list, otherwise the stored \<open>db_ver\<close> when one
  is set (neither \<open>None\<close> nor empty), otherwise \<open>full\<close>.
\<close>

theorem backup_filename_tag:
  "backup_filename nw cf ts (main_backup_tables lite_flag) =
     SQL_DATABASE nw @ ''-'' @ ts @ ''-'' @
       (if lite_flag then ''lite''
        else (case db_ver cf of
                None \<Rightarrow> ''full''
              | Some v \<Rightarrow> (if v = [] then ''full'' else v))) @ ''.sql''"
  by (cases "db_ver cf")
     (simp_all add: backup_filename_def backup_tag_def main_backup_tables_def
        protected_tables_def truthy_str_def)

end
